theory Spec2Isabelle
  imports Main "HOL-Library.Char_ord" "HOL-Library.List_Lexorder"
begin

section \<open>Data model of the payment server (server.ts)\<close>

text \<open>
  A field of a parsed JSON request body. The type \<open>'n\<close> stands for the JSON numbers
  (IEEE doubles in the source); the server never computes with them, it only binds them
  to SQL parameters or interpolates them into a string. \<open>JUndefined\<close> is a field that is
  missing from the body, \<open>JObject\<close> an array or an object.
\<close>

datatype 'n jsval = JUndefined | JNull | JBool bool | JNum 'n | JStr string | JObject

text \<open>A value held in a column of the SQLite table.\<close>

datatype 'n sqlval = SNull | SNum 'n | SText string

text \<open>
  One row of the table \<open>payments\<close>. The column \<open>id\<close> is called \<open>id_col\<close> here. The
  columns \<open>name\<close>, \<open>phone\<close> and \<open>address\<close> are \<open>TEXT NOT NULL\<close>, so a stored row always
  holds text there; \<open>amount\<close> is \<open>REAL NOT NULL\<close> and holds a number or a text that does
  not read as a number; \<open>is_trashed\<close> only ever holds 0 or 1 and is a boolean here;
  \<open>created_at\<close> holds the text that \<open>CURRENT_TIMESTAMP\<close> produced.
\<close>

record 'n payment =
  id_col :: int
  transaction_id :: string
  name :: string
  phone :: string
  address :: string
  amount :: "'n sqlval"
  status :: string
  is_trashed :: bool
  created_at :: string

text \<open>
  The database file: the rows of \<open>payments\<close> in rowid order, the single row
  \<open>payment_status\<close> of \<open>settings\<close> (created by the initialisation script and never
  deleted), and the counter that \<open>AUTOINCREMENT\<close> keeps in \<open>sqlite_sequence\<close>.
\<close>

record 'n db =
  payments :: "'n payment list"
  payment_status :: string
  seq :: int

definition init_db :: "'n db" where
  "init_db = \<lparr>payments = [], payment_status = ''active'', seq = 0\<rparr>"

text \<open>
  The process environment and the built-in conversions of JavaScript and SQLite that the
  handlers call: \<open>encodeURIComponent\<close> (\<open>None\<close> when it throws \<open>URIError\<close>), the string
  conversion of a template literal or of \<open>+\<close> on a body field (\<open>None\<close> when it throws),
  and the two conversions that SQLite's column affinity applies to a bound number or text.
\<close>

record 'n env =
  ADMIN_UPI_ID :: "string option"
  ADMIN_NAME :: "string option"
  ADMIN_USERNAME :: "string option"
  ADMIN_PASSWORD :: "string option"
  encodeURIComponent :: "string \<Rightarrow> string option"
  js_string_of :: "'n jsval \<Rightarrow> string option"
  sql_text_of_num :: "'n \<Rightarrow> string"
  sql_num_of_text :: "string \<Rightarrow> 'n option"

text \<open>\<open>process.env.X || d\<close>: the default is taken when the variable is unset or empty.\<close>

definition or_default :: "string option \<Rightarrow> string \<Rightarrow> string" where
  "or_default v d = (case v of None \<Rightarrow> d | Some s \<Rightarrow> if s = [] then d else s)"

text \<open>The clock reading of a request, in UTC, as calendar fields.\<close>

record datetime =
  year :: nat
  month :: nat
  day :: nat
  hour :: nat
  minute :: nat
  second :: nat

section \<open>Strings: decimal numerals and padding\<close>

definition digit :: "nat \<Rightarrow> char" where
  "digit n = ''0123456789'' ! (n mod 10)"

text \<open>\<open>Number.prototype.toString\<close> on a non-negative integer.\<close>

function dec :: "nat \<Rightarrow> string" where
  "dec n = (if n < 10 then [digit n] else dec (n div 10) @ [digit n])"
  by pat_completeness auto
termination
  by (relation "measure (\<lambda>n. n)") auto

declare dec.simps [simp del]

text \<open>\<open>String.prototype.padStart\<close> with a one-character filler.\<close>

definition padStart :: "nat \<Rightarrow> char \<Rightarrow> string \<Rightarrow> string" where
  "padStart w c s = replicate (w - length s) c @ s"

text \<open>
  \<open>Date.prototype.toISOString\<close>, up to the day: four digits for the years 0 to 9999,
  a sign and six digits beyond.
\<close>

definition toISOString_date :: "datetime \<Rightarrow> string" where
  "toISOString_date t =
     (if year t \<le> 9999 then padStart 4 CHR ''0'' (dec (year t))
      else CHR ''+'' # padStart 6 CHR ''0'' (dec (year t)))
     @ ''-'' @ padStart 2 CHR ''0'' (dec (month t))
     @ ''-'' @ padStart 2 CHR ''0'' (dec (day t))"

text \<open>SQLite's \<open>date('now')\<close> and \<open>CURRENT_TIMESTAMP\<close> (years 0 to 9999).\<close>

definition sql_date :: "datetime \<Rightarrow> string" where
  "sql_date t =
     padStart 4 CHR ''0'' (dec (year t)) @ ''-'' @ padStart 2 CHR ''0'' (dec (month t))
     @ ''-'' @ padStart 2 CHR ''0'' (dec (day t))"

definition CURRENT_TIMESTAMP :: "datetime \<Rightarrow> string" where
  "CURRENT_TIMESTAMP t =
     sql_date t @ '' '' @ padStart 2 CHR ''0'' (dec (hour t))
     @ '':'' @ padStart 2 CHR ''0'' (dec (minute t))
     @ '':'' @ padStart 2 CHR ''0'' (dec (second t))"

section \<open>Requests and responses\<close>

text \<open>
  The body of the two public requests, as the JSON parser hands it to the handler:
  \<open>const { name, phone, address, amount } = req.body\<close>.
\<close>

record 'n payment_body =
  body_name :: "'n jsval"
  body_phone :: "'n jsval"
  body_address :: "'n jsval"
  body_amount :: "'n jsval"

text \<open>
  What a handler sends back: \<open>JsonError c m\<close> is \<open>res.status(c).json({error: m})\<close>, the
  other constructors are the bodies sent with status 200, except \<open>LoginFailed\<close> (401).
\<close>

datatype 'n response =
    JsonError nat string
  | UpiUrl string
  | PaymentSaved string "'n payment option"
  | LoginOk string
  | LoginFailed string
  | Rows "'n payment list"
  | StatusValue string
  | StatusUpdated string
  | Success

text \<open>What is thrown inside a handler's \<open>try\<close> block.\<close>

datatype error = TypeError | URIError | NotNullConstraint | UniqueConstraint

section \<open>The public handlers\<close>

text \<open>\<open>POST /api/initiate-manual-payment\<close>: reads the gate, writes nothing.\<close>

definition upiUrl :: "'n env \<Rightarrow> 'n payment_body \<Rightarrow> error + string" where
  "upiUrl e b =
     (let upiId = or_default (ADMIN_UPI_ID e) ''9511648488@ybl'';
          adminName = or_default (ADMIN_NAME e) ''Abhay Rathod''
      in case encodeURIComponent e adminName of
           None \<Rightarrow> Inl URIError
         | Some pn \<Rightarrow>
            (case js_string_of e (body_amount b) of
               None \<Rightarrow> Inl TypeError
             | Some am \<Rightarrow>
                (case js_string_of e (body_name b) of
                   None \<Rightarrow> Inl TypeError
                 | Some nm \<Rightarrow>
                    (case encodeURIComponent e (''Payment from '' @ nm) of
                       None \<Rightarrow> Inl URIError
                     | Some tn \<Rightarrow>
                        Inr (''upi://pay?pa='' @ upiId @ ''&pn='' @ pn @ ''&am='' @ am
                             @ ''&cu=INR&tn='' @ tn)))))"

definition initiate_manual_payment :: "'n env \<Rightarrow> 'n db \<Rightarrow> 'n payment_body \<Rightarrow> 'n response" where
  "initiate_manual_payment e d b =
     (if payment_status d = ''paused''
      then JsonError 403 ''Payments are currently paused by the administrator.''
      else case upiUrl e b of
             Inl err \<Rightarrow> JsonError 500 ''Failed to initiate payment''
           | Inr u \<Rightarrow> UpiUrl u)"

text \<open>
  Binding a body field to a parameter of a prepared statement: the driver binds numbers,
  strings and null and throws \<open>TypeError\<close> on anything else.
\<close>

fun bind_param :: "'n jsval \<Rightarrow> error + 'n sqlval" where
  "bind_param JNull = Inr SNull"
| "bind_param (JNum n) = Inr (SNum n)"
| "bind_param (JStr s) = Inr (SText s)"
| "bind_param v = Inl TypeError"

text \<open>
  Storing a bound value into a \<open>TEXT NOT NULL\<close> column (a number is converted to text)
  and into the \<open>REAL NOT NULL\<close> column (a text that reads as a number is converted).
\<close>

fun text_not_null :: "'n env \<Rightarrow> 'n sqlval \<Rightarrow> error + string" where
  "text_not_null e SNull = Inl NotNullConstraint"
| "text_not_null e (SNum n) = Inr (sql_text_of_num e n)"
| "text_not_null e (SText s) = Inr s"

fun real_not_null :: "'n env \<Rightarrow> 'n sqlval \<Rightarrow> error + 'n sqlval" where
  "real_not_null e SNull = Inl NotNullConstraint"
| "real_not_null e (SNum n) = Inr (SNum n)"
| "real_not_null e (SText s) =
     Inr (case sql_num_of_text e s of None \<Rightarrow> SText s | Some n \<Rightarrow> SNum n)"

text \<open>The rowid that \<open>AUTOINCREMENT\<close> gives to the next row.\<close>

definition next_id :: "'n db \<Rightarrow> int" where
  "next_id d = max (seq d) (fold max (map id_col (payments d)) 0) + 1"

text \<open>
  \<open>INSERT INTO payments (transaction_id, name, phone, address, amount, status)\<close> at the
  clock reading \<open>now\<close>: the four body fields are bound, the \<open>NOT NULL\<close> constraints and
  the \<open>UNIQUE\<close> constraint on \<open>transaction_id\<close> are checked, and the row gets its id, the
  defaults \<open>is_trashed = 0\<close> and \<open>created_at = CURRENT_TIMESTAMP\<close>.
\<close>

definition insert_payment ::
  "'n env \<Rightarrow> datetime \<Rightarrow> 'n db \<Rightarrow> string \<Rightarrow> 'n payment_body \<Rightarrow> string \<Rightarrow> error + 'n db" where
  "insert_payment e now d tid b st =
     (case bind_param (body_name b) of Inl err \<Rightarrow> Inl err | Inr vn \<Rightarrow>
     (case bind_param (body_phone b) of Inl err \<Rightarrow> Inl err | Inr vp \<Rightarrow>
     (case bind_param (body_address b) of Inl err \<Rightarrow> Inl err | Inr va \<Rightarrow>
     (case bind_param (body_amount b) of Inl err \<Rightarrow> Inl err | Inr vm \<Rightarrow>
     (case text_not_null e vn of Inl err \<Rightarrow> Inl err | Inr n \<Rightarrow>
     (case text_not_null e vp of Inl err \<Rightarrow> Inl err | Inr p \<Rightarrow>
     (case text_not_null e va of Inl err \<Rightarrow> Inl err | Inr a \<Rightarrow>
     (case real_not_null e vm of Inl err \<Rightarrow> Inl err | Inr m \<Rightarrow>
        if \<exists>r \<in> set (payments d). transaction_id r = tid then Inl UniqueConstraint
        else Inr (d\<lparr>payments := payments d @
                     [\<lparr>id_col = next_id d, transaction_id = tid, name = n, phone = p,
                       address = a, amount = m, status = st, is_trashed = False,
                       created_at = CURRENT_TIMESTAMP now\<rparr>],
                   seq := next_id d\<rparr>)))))))))"

text \<open>\<open>today.toISOString().slice(0, 10).replace(/-/g, '')\<close>\<close>

definition dateStr :: "datetime \<Rightarrow> string" where
  "dateStr today = filter (\<lambda>c. c \<noteq> CHR ''-'') (take 10 (toISOString_date today))"

text \<open>\<open>SELECT COUNT(*) FROM payments WHERE created_at >= date('now')\<close>: a comparison of texts.\<close>

definition count_today :: "datetime \<Rightarrow> 'n db \<Rightarrow> nat" where
  "count_today now d = length (filter (\<lambda>r. sql_date now \<le> created_at r) (payments d))"

definition sequentialNumber :: "nat \<Rightarrow> string" where
  "sequentialNumber count = padStart 4 CHR ''0'' (dec (count + 1))"

definition transactionId :: "datetime \<Rightarrow> 'n db \<Rightarrow> string" where
  "transactionId now d = ''REC-'' @ dateStr now @ ''-'' @ sequentialNumber (count_today now d)"

text \<open>
  \<open>POST /api/submit-manual-payment\<close>. The handler runs without interruption; its clock
  reads (\<open>new Date()\<close>, \<open>date('now')\<close>, \<open>CURRENT_TIMESTAMP\<close>) are one reading \<open>now\<close>.
\<close>

definition submit_manual_payment ::
  "'n env \<Rightarrow> datetime \<Rightarrow> 'n db \<Rightarrow> 'n payment_body \<Rightarrow> 'n db \<times> 'n response" where
  "submit_manual_payment e now d b =
     (if payment_status d = ''paused''
      then (d, JsonError 403 ''Payments are currently paused by the administrator.'')
      else
        let tid = transactionId now d in
        case insert_payment e now d tid b ''success'' of
          Inl err \<Rightarrow> (d, JsonError 500 ''Failed to save payment'')
        | Inr d' \<Rightarrow>
            (d', PaymentSaved tid (find (\<lambda>r. transaction_id r = tid) (payments d'))))"

section \<open>The admin handlers\<close>

text \<open>\<open>POST /api/admin/login\<close>: strict equality with the configured credentials.\<close>

definition admin_login :: "'n env \<Rightarrow> 'n jsval \<Rightarrow> 'n jsval \<Rightarrow> 'n response" where
  "admin_login e username password =
     (if username = JStr (or_default (ADMIN_USERNAME e) ''Abhay'')
         \<and> password = JStr (or_default (ADMIN_PASSWORD e) ''Abhay123'')
      then LoginOk ''admin-session-token''
      else LoginFailed ''Invalid credentials'')"

text \<open>
  \<open>ORDER BY created_at DESC\<close>; SQL leaves the order of rows with equal \<open>created_at\<close>
  open, here they come out in reverse rowid order.
\<close>

definition order_by_created_at_desc :: "'n payment list \<Rightarrow> 'n payment list" where
  "order_by_created_at_desc rs = rev (sort_key created_at rs)"

definition admin_payments :: "'n db \<Rightarrow> 'n payment list" where
  "admin_payments d = order_by_created_at_desc (filter (\<lambda>r. \<not> is_trashed r) (payments d))"

definition admin_trash :: "'n db \<Rightarrow> 'n payment list" where
  "admin_trash d = order_by_created_at_desc (filter (\<lambda>r. is_trashed r) (payments d))"

text \<open>\<open>POST /api/admin/update-status\<close>\<close>

definition update_status :: "'n db \<Rightarrow> 'n jsval \<Rightarrow> 'n db \<times> 'n response" where
  "update_status d st =
     (case st of
        JStr s \<Rightarrow>
          if s \<noteq> ''active'' \<and> s \<noteq> ''paused'' then (d, JsonError 400 ''Invalid status'')
          else (d\<lparr>payment_status := s\<rparr>, StatusUpdated s)
      | _ \<Rightarrow> (d, JsonError 400 ''Invalid status''))"

text \<open>
  The handlers with a route parameter \<open>:id\<close>. The parameter is a text; SQLite compares it
  with the integer column as a number, so it is given here as the integer it reads as.
  A text that reads as no integer matches no row, as an integer that no row has.
\<close>

definition delete_payment :: "'n db \<Rightarrow> int \<Rightarrow> 'n db \<times> 'n response" where
  "delete_payment d i =
     (d\<lparr>payments := map (\<lambda>r. if id_col r = i then r\<lparr>is_trashed := True\<rparr> else r) (payments d)\<rparr>,
      Success)"

definition restore_payment :: "'n db \<Rightarrow> int \<Rightarrow> 'n db \<times> 'n response" where
  "restore_payment d i =
     (d\<lparr>payments := map (\<lambda>r. if id_col r = i then r\<lparr>is_trashed := False\<rparr> else r) (payments d)\<rparr>,
      Success)"

definition permanent_delete :: "'n db \<Rightarrow> int \<Rightarrow> 'n db \<times> 'n response" where
  "permanent_delete d i =
     (d\<lparr>payments := filter (\<lambda>r. \<not> (id_col r = i \<and> is_trashed r)) (payments d)\<rparr>, Success)"

definition clear_payments :: "'n db \<Rightarrow> 'n db \<times> 'n response" where
  "clear_payments d =
     (d\<lparr>payments := map (\<lambda>r. if \<not> is_trashed r then r\<lparr>is_trashed := True\<rparr> else r) (payments d)\<rparr>,
      Success)"

definition restore_payments :: "'n db \<Rightarrow> 'n db \<times> 'n response" where
  "restore_payments d =
     (d\<lparr>payments := map (\<lambda>r. if is_trashed r then r\<lparr>is_trashed := False\<rparr> else r) (payments d)\<rparr>,
      Success)"

definition empty_trash :: "'n db \<Rightarrow> 'n db \<times> 'n response" where
  "empty_trash d = (d\<lparr>payments := filter (\<lambda>r. \<not> is_trashed r) (payments d)\<rparr>, Success)"

section \<open>The server as a whole\<close>

text \<open>
  A request as the server receives it: the route and what the handler reads from the
  request (body fields, route parameter). No handler reads a header, a cookie or a token.
\<close>

datatype 'n request =
    InitiateManualPayment "'n payment_body"
  | SubmitManualPayment "'n payment_body"
  | AdminLogin "'n jsval" "'n jsval"
  | AdminPayments
  | AdminTrash
  | PaymentStatus
  | UpdateStatus "'n jsval"
  | DeletePayment int
  | RestorePayment int
  | PermanentDelete int
  | ClearPayments
  | RestorePayments
  | EmptyTrash

fun handle :: "'n env \<Rightarrow> 'n db \<Rightarrow> datetime \<times> 'n request \<Rightarrow> 'n db \<times> 'n response" where
  "handle e d (now, InitiateManualPayment b) = (d, initiate_manual_payment e d b)"
| "handle e d (now, SubmitManualPayment b) = submit_manual_payment e now d b"
| "handle e d (now, AdminLogin u p) = (d, admin_login e u p)"
| "handle e d (now, AdminPayments) = (d, Rows (admin_payments d))"
| "handle e d (now, AdminTrash) = (d, Rows (admin_trash d))"
| "handle e d (now, PaymentStatus) = (d, StatusValue (payment_status d))"
| "handle e d (now, UpdateStatus st) = update_status d st"
| "handle e d (now, DeletePayment i) = delete_payment d i"
| "handle e d (now, RestorePayment i) = restore_payment d i"
| "handle e d (now, PermanentDelete i) = permanent_delete d i"
| "handle e d (now, ClearPayments) = clear_payments d"
| "handle e d (now, RestorePayments) = restore_payments d"
| "handle e d (now, EmptyTrash) = empty_trash d"

text \<open>The server's state after a sequence of requests, handled one after the other.\<close>

fun run :: "'n env \<Rightarrow> 'n db \<Rightarrow> (datetime \<times> 'n request) list \<Rightarrow> 'n db" where
  "run e d [] = d"
| "run e d (rq # rqs) = run e (fst (handle e d rq)) rqs"

section \<open>Notions used to state the properties\<close>

text \<open>A reading of the clock with a four-digit year and calendar fields in range.\<close>

definition valid_datetime :: "datetime \<Rightarrow> bool" where
  "valid_datetime t \<longleftrightarrow>
     year t \<le> 9999 \<and> 1 \<le> month t \<and> month t \<le> 12 \<and> 1 \<le> day t \<and> day t \<le> 31
     \<and> hour t < 24 \<and> minute t < 60 \<and> second t < 60"

text \<open>The \<open>w\<close> low decimal digits of \<open>n\<close>, most significant first.\<close>

fun digits :: "nat \<Rightarrow> nat \<Rightarrow> string" where
  "digits 0 n = []"
| "digits (Suc w) n = digits w (n div 10) @ [digit n]"

text \<open>
  The specification's transaction id, in its own words: the calendar date as \<open>YYYYMMDD\<close>,
  and the sequence number zero-padded to four digits (a number of more than four digits
  is written out in full).
\<close>

definition YYYYMMDD :: "datetime \<Rightarrow> string" where
  "YYYYMMDD today = digits 4 (year today) @ digits 2 (month today) @ digits 2 (day today)"

definition zero_padded4 :: "nat \<Rightarrow> string" where
  "zero_padded4 n = (if n \<le> 9999 then digits 4 n else dec n)"

definition spec_transaction_id :: "datetime \<Rightarrow> nat \<Rightarrow> string" where
  "spec_transaction_id today count = ''REC-'' @ YYYYMMDD today @ ''-'' @ zero_padded4 (count + 1)"

text \<open>
  The specification's count: a record is counted when its creation time \<open>t\<close> falls on or
  after the start of the day of \<open>today\<close>.
\<close>

definition on_or_after_start_of_day :: "datetime \<Rightarrow> datetime \<Rightarrow> bool" where
  "on_or_after_start_of_day today t \<longleftrightarrow>
     year today < year t
     \<or> (year t = year today
        \<and> (month today < month t \<or> (month t = month today \<and> day today \<le> day t)))"

text \<open>The \<open>success\<close> field of a response body, when the body has one.\<close>

fun success_field :: "'n response \<Rightarrow> bool option" where
  "success_field Success = Some True"
| "success_field (StatusUpdated s) = Some True"
| "success_field (LoginOk t) = Some True"
| "success_field (LoginFailed m) = Some False"
| "success_field r = None"

definition is_login :: "'n request \<Rightarrow> bool" where
  "is_login rq = (case rq of AdminLogin u p \<Rightarrow> True | _ \<Rightarrow> False)"

section \<open>Sample environment and requests\<close>

text \<open>
  An environment in which no variable is set and the numbers are the natural numbers.
  \<open>encodeURIComponent\<close> escapes every byte that is not unreserved; the SQLite conversion
  of a text to a number is left out (every text stays text), which the samples below never
  reach: they send texts for the text columns and a number for the amount.
\<close>

definition unreserved :: "char \<Rightarrow> bool" where
  "unreserved c \<longleftrightarrow>
     c \<in> set ''ABCDEFGHIJKLMNOPQRSTUVWXYZabcdefghijklmnopqrstuvwxyz0123456789-_.!~*()''
     \<or> c = CHR 0x27"

definition percent :: "char \<Rightarrow> string" where
  "percent c = [CHR ''%'', ''0123456789ABCDEF'' ! (of_char c div 16),
                ''0123456789ABCDEF'' ! (of_char c mod 16)]"

definition sample_env :: "nat env" where
  "sample_env =
     \<lparr>ADMIN_UPI_ID = None, ADMIN_NAME = None, ADMIN_USERNAME = None, ADMIN_PASSWORD = None,
      encodeURIComponent =
        (\<lambda>s. Some (concat (map (\<lambda>c. if unreserved c then [c] else percent c) s))),
      js_string_of =
        (\<lambda>v. case v of
                JUndefined \<Rightarrow> Some ''undefined''
              | JNull \<Rightarrow> Some ''null''
              | JBool b \<Rightarrow> Some (if b then ''true'' else ''false'')
              | JNum n \<Rightarrow> Some (dec n)
              | JStr s \<Rightarrow> Some s
              | JObject \<Rightarrow> Some ''[object Object]''),
      sql_text_of_num = dec,
      sql_num_of_text = (\<lambda>s. None)\<rparr>"

definition t0 :: datetime where
  "t0 = \<lparr>year = 2026, month = 11, day = 3, hour = 9, minute = 5, second = 0\<rparr>"

definition body0 :: "nat payment_body" where
  "body0 = \<lparr>body_name = JStr ''Asha'', body_phone = JStr ''9876543210'',
            body_address = JStr ''12 Lake Road'', body_amount = JNum 500\<rparr>"

text \<open>A body that the form's checks would refuse: a five-digit phone and an amount of 99.\<close>

definition body_bad :: "nat payment_body" where
  "body_bad = \<lparr>body_name = JStr ''Asha'', body_phone = JStr ''12345'',
               body_address = JStr ''12 Lake Road'', body_amount = JNum 99\<rparr>"

text \<open>The row that the \<open>k\<close>-th confirmation of \<open>body0\<close> at \<open>t0\<close> creates in an empty table.\<close>

definition row0 :: "nat \<Rightarrow> nat payment" where
  "row0 k = \<lparr>id_col = int k, transaction_id = ''REC-20261103-'' @ sequentialNumber (k - 1),
             name = ''Asha'', phone = ''9876543210'', address = ''12 Lake Road'',
             amount = SNum 500, status = ''success'', is_trashed = False,
             created_at = ''2026-11-03 09:05:00''\<rparr>"

text \<open>The table after \<open>k\<close> such confirmations.\<close>

fun day_rows :: "nat \<Rightarrow> nat payment list" where
  "day_rows 0 = []"
| "day_rows (Suc k) = day_rows k @ [row0 (Suc k)]"

definition day_db :: "nat \<Rightarrow> nat db" where
  "day_db k = \<lparr>payments = day_rows k, payment_status = ''active'', seq = int k\<rparr>"

text \<open>The empty table after the administrator has paused the payments.\<close>

definition paused_db :: "nat db" where
  "paused_db = \<lparr>payments = [], payment_status = ''paused'', seq = 0\<rparr>"

text \<open>Two confirmations, after which the first row is trashed and purged.\<close>

definition purged_db :: "nat db" where
  "purged_db = \<lparr>payments = [row0 2], payment_status = ''active'', seq = 2\<rparr>"

text \<open>One confirmation, after which the row is trashed.\<close>

definition trashed_db :: "nat db" where
  "trashed_db = \<lparr>payments = [(row0 1)\<lparr>is_trashed := True\<rparr>], payment_status = ''active'', seq = 1\<rparr>"

section \<open>Decimal numerals\<close>

lemma dec_small: "n < 10 \<Longrightarrow> dec n = [digit n]"
  by (simp add: dec.simps)

lemma dec_big: "10 \<le> n \<Longrightarrow> dec n = dec (n div 10) @ [digit n]"
  by (simp add: dec.simps)

lemma replicate_numeral: "replicate (numeral k) x = x # replicate (pred_numeral k) x"
  by (simp add: numeral_eq_Suc)

lemma below_ten: "(n::nat) < 10 \<Longrightarrow> n \<in> {0, 1, 2, 3, 4, 5, 6, 7, 8, 9}"
  by auto

lemma digit_mod: "digit n = digit (n mod 10)"
  by (simp add: digit_def)

lemma digit_less_small: "a < 10 \<Longrightarrow> b < 10 \<Longrightarrow> digit a < digit b \<longleftrightarrow> a < b"
  by (drule below_ten, drule below_ten) (auto simp: digit_def)

lemma digit_eq_small: "a < 10 \<Longrightarrow> b < 10 \<Longrightarrow> digit a = digit b \<longleftrightarrow> a = b"
  by (drule below_ten, drule below_ten) (auto simp: digit_def)

lemma digit_less: "digit a < digit b \<longleftrightarrow> a mod 10 < b mod 10"
  using digit_less_small [of "a mod 10" "b mod 10"] digit_mod [of a] digit_mod [of b] by simp

lemma digit_eq: "digit a = digit b \<longleftrightarrow> a mod 10 = b mod 10"
  using digit_eq_small [of "a mod 10" "b mod 10"] digit_mod [of a] digit_mod [of b] by simp

lemma digit_not_dash: "digit n \<noteq> CHR ''-''"
proof -
  have "n mod 10 < 10" by simp
  then have "digit (n mod 10) \<noteq> CHR ''-''"
    by (drule_tac below_ten) (auto simp: digit_def)
  then show ?thesis using digit_mod [of n] by simp
qed

lemma div10_less: "n < 10 ^ Suc w \<Longrightarrow> n div 10 < (10::nat) ^ w"
proof -
  assume "n < 10 ^ Suc w"
  then have "n < 10 ^ w * 10" by (simp only: power_Suc mult.commute)
  then show ?thesis by (rule less_mult_imp_div_less)
qed

lemma split10_aux:
  fixes x y qa qb ra rb :: nat
  shows "x = 10 * qa + ra \<Longrightarrow> y = 10 * qb + rb \<Longrightarrow> ra < 10 \<Longrightarrow> rb < 10 \<Longrightarrow>
         x < y \<longleftrightarrow> qa < qb \<or> (qa = qb \<and> ra < rb)"
  by arith

lemma split10:
  "(a::nat) < b \<longleftrightarrow> a div 10 < b div 10 \<or> (a div 10 = b div 10 \<and> a mod 10 < b mod 10)"
  by (rule split10_aux) simp_all

lemma join10: "(a::nat) div 10 = b div 10 \<Longrightarrow> a mod 10 = b mod 10 \<Longrightarrow> a = b"
  by (metis div_mult_mod_eq)

lemma less_append_same_length:
  fixes xs ys :: "'a::linorder list"
  assumes "length xs = length ys"
  shows "xs @ u < ys @ v \<longleftrightarrow> xs < ys \<or> (xs = ys \<and> u < v)"
  using assms
proof (induction xs ys rule: list_induct2)
  case Nil
  then show ?case by simp
next
  case (Cons x xs y ys)
  then show ?case by auto
qed

lemma length_digits [simp]: "length (digits w n) = w"
  by (induction w arbitrary: n) auto

lemma digits_less: "a < 10 ^ w \<Longrightarrow> b < 10 ^ w \<Longrightarrow> digits w a < digits w b \<longleftrightarrow> a < b"
proof (induction w arbitrary: a b)
  case 0
  then show ?case by simp
next
  case (Suc w)
  have a: "a div 10 < 10 ^ w" and b: "b div 10 < 10 ^ w"
    using Suc.prems by (simp_all only: div10_less)
  have lt: "digits w (a div 10) < digits w (b div 10) \<longleftrightarrow> a div 10 < b div 10"
    by (rule Suc.IH [OF a b])
  have gt: "digits w (b div 10) < digits w (a div 10) \<longleftrightarrow> b div 10 < a div 10"
    by (rule Suc.IH [OF b a])
  have eq: "digits w (a div 10) = digits w (b div 10) \<longleftrightarrow> a div 10 = b div 10"
  proof
    assume "digits w (a div 10) = digits w (b div 10)"
    then show "a div 10 = b div 10" using lt gt by (metis less_irrefl linorder_neqE_nat)
  qed simp
  have "digits (Suc w) a < digits (Suc w) b \<longleftrightarrow>
          digits w (a div 10) < digits w (b div 10)
          \<or> (digits w (a div 10) = digits w (b div 10) \<and> [digit a] < [digit b])"
    unfolding digits.simps by (rule less_append_same_length) simp
  also have "\<dots> \<longleftrightarrow> a div 10 < b div 10 \<or> (a div 10 = b div 10 \<and> a mod 10 < b mod 10)"
    unfolding lt eq by (simp add: digit_less)
  also have "\<dots> \<longleftrightarrow> a < b"
    by (rule split10 [symmetric])
  finally show ?case .
qed

lemma digits_eq: "a < 10 ^ w \<Longrightarrow> b < 10 ^ w \<Longrightarrow> digits w a = digits w b \<longleftrightarrow> a = b"
  using digits_less [of a w b] digits_less [of b w a]
  by (metis less_irrefl linorder_neqE_nat)

lemma digits_zero: "digits w 0 = replicate w CHR ''0''"
  by (induction w) (auto simp: digit_def replicate_append_same)

lemma dash_notin_digits: "CHR ''-'' \<notin> set (digits w n)"
  by (induction w arbitrary: n) (auto simp: digit_not_dash [symmetric])

lemma length_dec_pos: "0 < length (dec n)"
  by (cases "n < 10") (simp_all add: dec_small dec_big)

lemma pad_dec: "n < 10 ^ w \<Longrightarrow> 0 < w \<Longrightarrow> padStart w CHR ''0'' (dec n) = digits w n"
proof (induction n arbitrary: w rule: dec.induct)
  case (1 n)
  obtain k where w: "w = Suc k" using "1.prems" by (cases w) auto
  show ?case
  proof (cases "n < 10")
    case True
    then show ?thesis
      by (simp add: w dec_small padStart_def digits_zero)
  next
    case False
    have k: "0 < k" using False "1.prems" w by (cases k) auto
    have d: "n div 10 < 10 ^ k"
      using "1.prems"(1) unfolding w by (rule div10_less)
    have "padStart k CHR ''0'' (dec (n div 10)) = digits k (n div 10)"
      using "1.IH" False d k by simp
    then show ?thesis using False w by (simp add: dec_big padStart_def)
  qed
qed

lemma length_dec_ge: "10 ^ k \<le> n \<Longrightarrow> k < length (dec n)"
proof (induction k arbitrary: n)
  case 0
  then show ?case using length_dec_pos [of n] by simp
next
  case (Suc k)
  have "(10::nat) ^ k * 10 \<le> n" using Suc.prems by (simp add: mult.commute)
  then have "10 ^ k \<le> n div 10" by (simp add: less_eq_div_iff_mult_less_eq)
  then have "k < length (dec (n div 10))" by (rule Suc.IH)
  moreover have "10 \<le> n"
  proof -
    have "(1::nat) \<le> 10 ^ k" by simp
    then have "(10::nat) \<le> 10 ^ k * 10" by simp
    then show ?thesis using \<open>10 ^ k * 10 \<le> n\<close> by (rule order_trans)
  qed
  ultimately show ?case by (simp add: dec_big)
qed

lemma dec_inj: "dec a = dec b \<Longrightarrow> a = b"
proof (induction a arbitrary: b rule: dec.induct)
  case (1 a)
  have len: "length (dec a) = length (dec b)" using "1.prems" by simp
  show ?case
  proof (cases "a < 10")
    case True
    show ?thesis
    proof (cases "b < 10")
      case True
      with \<open>a < 10\<close> "1.prems" show ?thesis by (simp add: dec_small digit_eq)
    next
      case False
      then have "length (dec b) = Suc (length (dec (b div 10)))" by (simp add: dec_big)
      with True len length_dec_pos [of "b div 10"] show ?thesis by (simp add: dec_small)
    qed
  next
    case False
    show ?thesis
    proof (cases "b < 10")
      case True
      from False have "length (dec a) = Suc (length (dec (a div 10)))" by (simp add: dec_big)
      with True len length_dec_pos [of "a div 10"] show ?thesis by (simp add: dec_small)
    next
      case b: False
      from False b "1.prems" have "dec (a div 10) = dec (b div 10)" "digit a = digit b"
        by (simp_all add: dec_big)
      then have "a div 10 = b div 10" "a mod 10 = b mod 10"
        using "1.IH" False by (simp_all add: digit_eq)
      then show ?thesis by (rule join10)
    qed
  qed
qed

lemma sequentialNumber_small: "n < 9999 \<Longrightarrow> sequentialNumber n = digits 4 (n + 1)"
  unfolding sequentialNumber_def by (rule pad_dec) simp_all

lemma sequentialNumber_big:
  "9999 \<le> n \<Longrightarrow> sequentialNumber n = dec (n + 1) \<and> 5 \<le> length (dec (n + 1))"
proof -
  assume "9999 \<le> n"
  then have "10 ^ 4 \<le> n + 1" by simp
  then have "4 < length (dec (n + 1))" by (rule length_dec_ge)
  then show ?thesis by (simp add: sequentialNumber_def padStart_def)
qed

lemma sequentialNumber_zero_padded4: "sequentialNumber n = zero_padded4 (n + 1)"
  by (cases "n < 9999") (simp_all add: zero_padded4_def sequentialNumber_small sequentialNumber_big)

lemma sequentialNumber_inj: "sequentialNumber m = sequentialNumber n \<Longrightarrow> m = n"
proof -
  assume eq: "sequentialNumber m = sequentialNumber n"
  then have len: "length (sequentialNumber m) = length (sequentialNumber n)" by simp
  consider "m < 9999" "n < 9999" | "9999 \<le> m" "9999 \<le> n"
    | "m < 9999" "9999 \<le> n" | "9999 \<le> m" "n < 9999"
    by linarith
  then show ?thesis
  proof cases
    case 1
    then have "digits 4 (m + 1) = digits 4 (n + 1)" using eq by (simp add: sequentialNumber_small)
    moreover have "m + 1 < 10 ^ 4" "n + 1 < 10 ^ 4" using 1 by simp_all
    ultimately have "m + 1 = n + 1" by (simp only: digits_eq)
    then show ?thesis by simp
  next
    case 2
    then have "dec (m + 1) = dec (n + 1)" using eq by (simp add: sequentialNumber_big)
    then have "m + 1 = n + 1" by (rule dec_inj)
    then show ?thesis by simp
  next
    case 3
    then show ?thesis using len sequentialNumber_big [of n] by (simp add: sequentialNumber_small)
  next
    case 4
    then show ?thesis using len sequentialNumber_big [of m] by (simp add: sequentialNumber_small)
  qed
qed

lemma sql_date_digits:
  "valid_datetime t \<Longrightarrow>
     sql_date t = digits 4 (year t) @ ''-'' @ digits 2 (month t) @ ''-'' @ digits 2 (day t)"
proof -
  assume v: "valid_datetime t"
  have y: "padStart 4 CHR ''0'' (dec (year t)) = digits 4 (year t)"
    by (rule pad_dec) (use v in \<open>simp_all add: valid_datetime_def\<close>)
  have m: "padStart 2 CHR ''0'' (dec (month t)) = digits 2 (month t)"
    by (rule pad_dec) (use v in \<open>simp_all add: valid_datetime_def\<close>)
  have d: "padStart 2 CHR ''0'' (dec (day t)) = digits 2 (day t)"
    by (rule pad_dec) (use v in \<open>simp_all add: valid_datetime_def\<close>)
  show ?thesis unfolding sql_date_def y m d ..
qed

lemma length_sql_date: "valid_datetime t \<Longrightarrow> length (sql_date t) = 10"
  by (simp add: sql_date_digits)

lemma filter_digits: "filter (\<lambda>c. c \<noteq> CHR ''-'') (digits w n) = digits w n"
  by (induction w arbitrary: n) (simp_all add: digit_not_dash)

lemma toISOString_date_valid: "valid_datetime t \<Longrightarrow> toISOString_date t = sql_date t"
  by (simp add: toISOString_date_def sql_date_def valid_datetime_def)

lemma dateStr_YYYYMMDD: "valid_datetime t \<Longrightarrow> dateStr t = YYYYMMDD t"
proof -
  assume v: "valid_datetime t"
  have "take 10 (sql_date t) = sql_date t"
    using length_sql_date [OF v] by simp
  then have "dateStr t = filter (\<lambda>c. c \<noteq> CHR ''-'') (sql_date t)"
    unfolding dateStr_def toISOString_date_valid [OF v] by (rule arg_cong)
  also have "\<dots> = YYYYMMDD t"
    unfolding sql_date_digits [OF v] YYYYMMDD_def filter_append filter_digits by simp
  finally show ?thesis .
qed

lemma valid_bounds:
  "valid_datetime t \<Longrightarrow> year t < 10 ^ 4 \<and> month t < 10 ^ 2 \<and> day t < 10 ^ 2"
  by (simp add: valid_datetime_def)

lemma sql_date_less:
  assumes a: "valid_datetime a" and b: "valid_datetime b"
  shows "sql_date a < sql_date b \<longleftrightarrow>
           year a < year b
           \<or> (year a = year b \<and> (month a < month b \<or> (month a = month b \<and> day a < day b)))"
proof -
  note ba = valid_bounds [OF a] and bb = valid_bounds [OF b]
  have y: "digits 4 (year a) < digits 4 (year b) \<longleftrightarrow> year a < year b"
    "digits 4 (year a) = digits 4 (year b) \<longleftrightarrow> year a = year b"
    using ba bb by (simp_all only: digits_less digits_eq)
  have m: "digits 2 (month a) < digits 2 (month b) \<longleftrightarrow> month a < month b"
    "digits 2 (month a) = digits 2 (month b) \<longleftrightarrow> month a = month b"
    using ba bb by (simp_all only: digits_less digits_eq)
  have d: "digits 2 (day a) < digits 2 (day b) \<longleftrightarrow> day a < day b"
    using ba bb by (simp_all only: digits_less)
  have 1: "digits 2 (month a) @ ''-'' @ digits 2 (day a) < digits 2 (month b) @ ''-'' @ digits 2 (day b)
         \<longleftrightarrow> month a < month b \<or> (month a = month b \<and> day a < day b)"
    by (simp only: less_append_same_length length_digits m d)
       (simp only: append_Cons append_Nil Cons_less_Cons d, simp)
  have "sql_date a < sql_date b \<longleftrightarrow>
          digits 4 (year a) < digits 4 (year b)
          \<or> (digits 4 (year a) = digits 4 (year b)
             \<and> ''-'' @ digits 2 (month a) @ ''-'' @ digits 2 (day a)
               < ''-'' @ digits 2 (month b) @ ''-'' @ digits 2 (day b))"
    unfolding sql_date_digits [OF a] sql_date_digits [OF b]
    by (rule less_append_same_length) simp
  also have "\<dots> \<longleftrightarrow> year a < year b
           \<or> (year a = year b \<and> (month a < month b \<or> (month a = month b \<and> day a < day b)))"
    unfolding y using 1 by (simp only: append_Cons append_Nil Cons_less_Cons) simp
  finally show ?thesis .
qed

lemma sql_date_eq:
  assumes a: "valid_datetime a" and b: "valid_datetime b"
  shows "sql_date a = sql_date b \<longleftrightarrow> year a = year b \<and> month a = month b \<and> day a = day b"
proof -
  note ba = valid_bounds [OF a] and bb = valid_bounds [OF b]
  have y: "digits 4 (year a) = digits 4 (year b) \<longleftrightarrow> year a = year b"
    and m: "digits 2 (month a) = digits 2 (month b) \<longleftrightarrow> month a = month b"
    and d: "digits 2 (day a) = digits 2 (day b) \<longleftrightarrow> day a = day b"
    using ba bb by (simp_all only: digits_eq)
  show ?thesis
    unfolding sql_date_digits [OF a] sql_date_digits [OF b]
    by (simp only: append_eq_append_conv length_digits append_Cons append_Nil list.inject)
       (use y m d in simp)
qed

lemma CURRENT_TIMESTAMP_split:
  "\<exists>rest. CURRENT_TIMESTAMP t = sql_date t @ rest \<and> rest \<noteq> []"
  by (simp add: CURRENT_TIMESTAMP_def)

lemma created_today_iff:
  assumes now: "valid_datetime now" and t: "valid_datetime t"
  shows "sql_date now \<le> CURRENT_TIMESTAMP t \<longleftrightarrow> on_or_after_start_of_day now t"
proof -
  obtain rest where r: "CURRENT_TIMESTAMP t = sql_date t @ rest" "rest \<noteq> []"
    using CURRENT_TIMESTAMP_split by blast
  have len: "length (sql_date now) = length (sql_date t)"
    by (simp only: length_sql_date [OF now] length_sql_date [OF t])
  have ne: "sql_date now \<noteq> sql_date t @ rest"
  proof
    assume "sql_date now = sql_date t @ rest"
    then have "length (sql_date now) = length (sql_date t) + length rest" by simp
    then show False using len r(2) by simp
  qed
  have "sql_date now @ [] < sql_date t @ rest \<longleftrightarrow>
          sql_date now < sql_date t \<or> (sql_date now = sql_date t \<and> [] < rest)"
    using len by (rule less_append_same_length)
  moreover have "[] < rest" using r(2) by (cases rest) simp_all
  ultimately have "sql_date now \<le> CURRENT_TIMESTAMP t \<longleftrightarrow>
      sql_date now < sql_date t \<or> sql_date now = sql_date t"
    unfolding r(1) using ne by (simp add: le_less)
  also have "\<dots> \<longleftrightarrow> on_or_after_start_of_day now t"
    unfolding sql_date_less [OF now t] sql_date_eq [OF now t] on_or_after_start_of_day_def
    by auto
  finally show ?thesis .
qed

section \<open>The handlers\<close>

lemma set_order_by: "set (order_by_created_at_desc rs) = set rs"
  by (simp add: order_by_created_at_desc_def)

lemma map_same: "(\<And>x. x \<in> set xs \<Longrightarrow> f x = x) \<Longrightarrow> map f xs = xs"
  by (induction xs) auto

lemma untrash_same: "\<not> is_trashed r \<Longrightarrow> r\<lparr>is_trashed := False\<rparr> = r"
  by (cases r) auto

lemma trash_same: "is_trashed r \<Longrightarrow> r\<lparr>is_trashed := True\<rparr> = r"
  by (cases r) auto

lemma unique_row:
  "distinct (map id_col rs) \<Longrightarrow> r \<in> set rs \<Longrightarrow> q \<in> set rs \<Longrightarrow> id_col q = id_col r \<Longrightarrow> q = r"
  by (meson distinct_map inj_onD)

lemma find_append_last:
  "(\<And>r. r \<in> set xs \<Longrightarrow> \<not> P r) \<Longrightarrow> P x \<Longrightarrow> find P (xs @ [x]) = Some x"
  by (induction xs) auto

lemma insert_payment_ok:
  assumes "body_name b = JStr n" and "body_phone b = JStr p" and "body_address b = JStr a"
    and "body_amount b = JNum m" and "\<And>r. r \<in> set (payments d) \<Longrightarrow> transaction_id r \<noteq> tid"
  shows "insert_payment e now d tid b st =
           Inr (d\<lparr>payments := payments d @
                   [\<lparr>id_col = next_id d, transaction_id = tid, name = n, phone = p,
                     address = a, amount = SNum m, status = st, is_trashed = False,
                     created_at = CURRENT_TIMESTAMP now\<rparr>],
                 seq := next_id d\<rparr>)"
  using assms by (auto simp: insert_payment_def)

lemma insert_payment_Inr:
  assumes "insert_payment e now d tid b st = Inr d'"
  shows "\<exists>r. d' = d\<lparr>payments := payments d @ [r], seq := next_id d\<rparr>
             \<and> id_col r = next_id d \<and> transaction_id r = tid \<and> status r = st
             \<and> \<not> is_trashed r \<and> created_at r = CURRENT_TIMESTAMP now
             \<and> (\<forall>q \<in> set (payments d). transaction_id q \<noteq> tid)"
  using assms unfolding insert_payment_def
  by (fastforce split: sum.splits if_splits)

lemma insert_payment_unique:
  "\<exists>r \<in> set (payments d). transaction_id r = tid \<Longrightarrow> \<exists>err. insert_payment e now d tid b st = Inl err"
  unfolding insert_payment_def by (simp split: sum.splits)

lemma submit_creates:
  assumes "payment_status d \<noteq> ''paused''"
    and "body_name b = JStr n" and "body_phone b = JStr p" and "body_address b = JStr a"
    and "body_amount b = JNum m"
    and free: "\<And>r. r \<in> set (payments d) \<Longrightarrow> transaction_id r \<noteq> transactionId now d"
  shows "submit_manual_payment e now d b =
           (d\<lparr>payments := payments d @
                [\<lparr>id_col = next_id d, transaction_id = transactionId now d, name = n,
                  phone = p, address = a, amount = SNum m, status = ''success'',
                  is_trashed = False, created_at = CURRENT_TIMESTAMP now\<rparr>],
              seq := next_id d\<rparr>,
            PaymentSaved (transactionId now d)
              (Some \<lparr>id_col = next_id d, transaction_id = transactionId now d, name = n,
                  phone = p, address = a, amount = SNum m, status = ''success'',
                  is_trashed = False, created_at = CURRENT_TIMESTAMP now\<rparr>))"
proof -
  let ?row = "\<lparr>id_col = next_id d, transaction_id = transactionId now d, name = n,
                  phone = p, address = a, amount = SNum m, status = ''success'',
                  is_trashed = False, created_at = CURRENT_TIMESTAMP now\<rparr>"
  have i: "insert_payment e now d (transactionId now d) b ''success'' =
             Inr (d\<lparr>payments := payments d @ [?row], seq := next_id d\<rparr>)"
    using assms(2-5) free by (rule insert_payment_ok)
  have f: "find (\<lambda>r. transaction_id r = transactionId now d) (payments d @ [?row]) = Some ?row"
    by (rule find_append_last) (use free in auto)
  show ?thesis
    unfolding submit_manual_payment_def Let_def i using assms(1) f by simp
qed

lemma submit_saved:
  assumes "submit_manual_payment e now d b = (d', PaymentSaved tid row)"
  shows "payment_status d \<noteq> ''paused'' \<and> tid = transactionId now d
         \<and> (\<exists>r. row = Some r \<and> d' = d\<lparr>payments := payments d @ [r], seq := next_id d\<rparr>
                 \<and> id_col r = next_id d \<and> transaction_id r = tid \<and> \<not> is_trashed r
                 \<and> created_at r = CURRENT_TIMESTAMP now)"
proof -
  have np: "payment_status d \<noteq> ''paused''"
    using assms by (auto simp: submit_manual_payment_def)
  obtain d1 where i: "insert_payment e now d (transactionId now d) b ''success'' = Inr d1"
    using assms np by (auto simp: submit_manual_payment_def Let_def split: sum.splits)
  from insert_payment_Inr [OF i] obtain r where
    r: "d1 = d\<lparr>payments := payments d @ [r], seq := next_id d\<rparr>" "id_col r = next_id d"
       "transaction_id r = transactionId now d" "\<not> is_trashed r"
       "created_at r = CURRENT_TIMESTAMP now"
       "\<forall>q \<in> set (payments d). transaction_id q \<noteq> transactionId now d"
    by blast
  have f: "find (\<lambda>q. transaction_id q = transactionId now d) (payments d @ [r]) = Some r"
    by (rule find_append_last) (use r in auto)
  have "submit_manual_payment e now d b =
          (d1, PaymentSaved (transactionId now d) (Some r))"
    unfolding submit_manual_payment_def Let_def i using np f r(1) by simp
  with assms have "d' = d1" "tid = transactionId now d" "row = Some r" by simp_all
  then show ?thesis using np r by blast
qed

lemma submit_error: "submit_manual_payment e now d b = (d', JsonError c m) \<Longrightarrow> d' = d"
  by (auto simp: submit_manual_payment_def Let_def split: if_splits sum.splits)

lemma submit_unique_fails:
  assumes "payment_status d \<noteq> ''paused''"
    and "insert_payment e now d (transactionId now d) b ''success'' = Inl err"
  shows "submit_manual_payment e now d b = (d, JsonError 500 ''Failed to save payment'')"
  using assms by (simp add: submit_manual_payment_def Let_def)

lemma count_today_spec:
  assumes now: "valid_datetime now"
    and ts: "map created_at (payments d) = map CURRENT_TIMESTAMP ts"
    and v: "\<forall>t \<in> set ts. valid_datetime t"
  shows "count_today now d = length (filter (on_or_after_start_of_day now) ts)"
proof -
  have "count_today now d = length (filter (\<lambda>s. sql_date now \<le> s) (map created_at (payments d)))"
    unfolding count_today_def by (simp add: filter_map comp_def)
  also have "\<dots> = length (filter (\<lambda>t. sql_date now \<le> CURRENT_TIMESTAMP t) ts)"
    unfolding ts by (simp add: filter_map comp_def)
  also have "filter (\<lambda>t. sql_date now \<le> CURRENT_TIMESTAMP t) ts =
             filter (on_or_after_start_of_day now) ts"
    by (rule filter_cong [OF refl]) (use v now in \<open>simp add: created_today_iff\<close>)
  finally show ?thesis .
qed

lemma run_append: "run e d (xs @ ys) = run e (run e d xs) ys"
  by (induction xs arbitrary: d) auto

lemma handle_login: "is_login (snd rq) \<Longrightarrow> fst (handle e d rq) = d"
  by (cases rq; cases "snd rq") (auto simp: is_login_def)

section \<open>The sample states\<close>

lemmas eval_string = replicate_numeral dec_small dec_big digit_def padStart_def
  toISOString_date_def sql_date_def CURRENT_TIMESTAMP_def dateStr_def sequentialNumber_def

lemma t0_valid: "valid_datetime t0"
  by (simp add: valid_datetime_def t0_def)

lemma t0_texts:
  "CURRENT_TIMESTAMP t0 = ''2026-11-03 09:05:00''" "sql_date t0 = ''2026-11-03''"
  "dateStr t0 = ''20261103''"
  by (simp_all add: t0_def eval_string)

lemma day_rows_created: "r \<in> set (day_rows k) \<Longrightarrow> created_at r = ''2026-11-03 09:05:00''"
  by (induction k) (auto simp: row0_def)

lemma day_rows_tid:
  "r \<in> set (day_rows k) \<Longrightarrow> \<exists>j<k. transaction_id r = ''REC-20261103-'' @ sequentialNumber j"
proof (induction k)
  case 0
  then show ?case by simp
next
  case (Suc k)
  then show ?case by (auto simp: row0_def less_Suc_eq)
qed

lemma length_day_rows: "length (day_rows k) = k"
  by (induction k) auto

lemma count_today_day_db: "count_today t0 (day_db k) = k"
proof -
  have "filter (\<lambda>r. sql_date t0 \<le> created_at r) (day_rows k) = day_rows k"
    unfolding filter_id_conv t0_texts by (auto dest!: day_rows_created)
  then show ?thesis by (simp add: count_today_def day_db_def length_day_rows)
qed

lemma transactionId_day_db:
  "transactionId t0 (day_db k) = ''REC-20261103-'' @ sequentialNumber k"
  by (simp add: transactionId_def count_today_day_db t0_texts)

lemma transactionId_day_db_free:
  "r \<in> set (payments (day_db k)) \<Longrightarrow> transaction_id r \<noteq> transactionId t0 (day_db k)"
proof
  assume r: "r \<in> set (payments (day_db k))" and e: "transaction_id r = transactionId t0 (day_db k)"
  from r obtain j where j: "j < k" "transaction_id r = ''REC-20261103-'' @ sequentialNumber j"
    using day_rows_tid [of r k] by (auto simp: day_db_def)
  from e j(2) have "sequentialNumber j = sequentialNumber k"
    by (simp add: transactionId_day_db)
  then have "j = k" by (rule sequentialNumber_inj)
  then show False using j(1) by simp
qed

lemma fold_max_day_rows: "fold max (map id_col (day_rows k)) 0 = int k"
  by (induction k) (auto simp: row0_def)

lemma next_id_day_db: "next_id (day_db k) = int k + 1"
  by (simp add: next_id_def day_db_def fold_max_day_rows)

lemma submit_day_db:
  "submit_manual_payment sample_env t0 (day_db k) body0 =
     (day_db (Suc k), PaymentSaved (''REC-20261103-'' @ sequentialNumber k) (Some (row0 (Suc k))))"
proof -
  have "submit_manual_payment sample_env t0 (day_db k) body0 =
           ((day_db k)\<lparr>payments := payments (day_db k) @
                [\<lparr>id_col = next_id (day_db k), transaction_id = transactionId t0 (day_db k),
                  name = ''Asha'', phone = ''9876543210'', address = ''12 Lake Road'',
                  amount = SNum 500, status = ''success'',
                  is_trashed = False, created_at = CURRENT_TIMESTAMP t0\<rparr>],
              seq := next_id (day_db k)\<rparr>,
            PaymentSaved (transactionId t0 (day_db k))
              (Some \<lparr>id_col = next_id (day_db k), transaction_id = transactionId t0 (day_db k),
                  name = ''Asha'', phone = ''9876543210'', address = ''12 Lake Road'',
                  amount = SNum 500, status = ''success'',
                  is_trashed = False, created_at = CURRENT_TIMESTAMP t0\<rparr>))"
    by (rule submit_creates)
       (simp_all add: day_db_def body0_def transactionId_day_db_free [unfolded day_db_def, simplified])
  then show ?thesis
    unfolding transactionId_day_db next_id_day_db t0_texts
    by (simp add: day_db_def row0_def)
qed

lemma run_day_db:
  "run sample_env init_db (replicate k (t0, SubmitManualPayment body0)) = day_db k"
proof (induction k)
  case 0
  then show ?case by (simp add: init_db_def day_db_def)
next
  case (Suc k)
  have "replicate (Suc k) (t0, SubmitManualPayment body0) =
          replicate k (t0, SubmitManualPayment body0) @ [(t0, SubmitManualPayment body0)]"
    by (simp add: replicate_append_same)
  then show ?case
    by (simp only: run_append Suc.IH) (simp add: submit_day_db)
qed

section \<open>The primary key\<close>

lemma fold_max_ge: "(a::int) \<le> fold max xs a"
  by (induction xs arbitrary: a) (auto intro: order_trans [OF max.cobounded2])

lemma fold_max_member: "x \<in> set xs \<Longrightarrow> (x::int) \<le> fold max xs a"
proof (induction xs arbitrary: a)
  case Nil
  then show ?case by simp
next
  case (Cons y ys)
  show ?case
  proof (cases "x = y")
    case True
    have "x \<le> max x a" by simp
    also have "\<dots> \<le> fold max ys (max x a)" by (rule fold_max_ge)
    finally show ?thesis using True by simp
  next
    case False
    then have "x \<in> set ys" using Cons.prems by simp
    then show ?thesis using Cons.IH by simp
  qed
qed

lemma next_id_fresh: "r \<in> set (payments d) \<Longrightarrow> id_col r < next_id d"
proof -
  assume "r \<in> set (payments d)"
  then have "id_col r \<in> set (map id_col (payments d))" by simp
  then have "id_col r \<le> fold max (map id_col (payments d)) 0" by (rule fold_max_member)
  then show ?thesis by (simp add: next_id_def)
qed

lemma map_id_col_update:
  "id_col \<circ> (\<lambda>r. if P r then r\<lparr>is_trashed := b\<rparr> else r) = id_col"
  by (auto simp: fun_eq_iff)

lemma handle_keeps_ids_distinct:
  assumes "distinct (map id_col (payments d))"
  shows "distinct (map id_col (payments (fst (handle e d rq))))"
proof (cases rq)
  case (Pair now q)
  show ?thesis
  proof (cases q)
    case (SubmitManualPayment b)
    obtain d' resp where s: "submit_manual_payment e now d b = (d', resp)"
      by (cases "submit_manual_payment e now d b")
    show ?thesis
    proof (cases resp)
      case (PaymentSaved tid row)
      from submit_saved [OF s [unfolded PaymentSaved]] obtain r where
        r: "d' = d\<lparr>payments := payments d @ [r], seq := next_id d\<rparr>" "id_col r = next_id d"
        by blast
      have "next_id d \<notin> set (map id_col (payments d))"
        using next_id_fresh [of _ d] by force
      then show ?thesis using assms Pair SubmitManualPayment s r by simp
    next
      case (JsonError c m)
      then have "d' = d" using s submit_error by blast
      then show ?thesis using assms Pair SubmitManualPayment s by simp
    qed (use s in \<open>auto simp: submit_manual_payment_def Let_def split: if_splits sum.splits\<close>)
  qed (use assms Pair in \<open>auto simp: update_status_def delete_payment_def restore_payment_def
        permanent_delete_def clear_payments_def restore_payments_def empty_trash_def
        map_id_col_update distinct_map_filter split: jsval.splits\<close>)
qed

lemma run_keeps_ids_distinct:
  "distinct (map id_col (payments d)) \<Longrightarrow> distinct (map id_col (payments (run e d rqs)))"
  by (induction rqs arbitrary: d) (auto simp: handle_keeps_ids_distinct)

lemma digits_4: "digits 4 n = [digit (n div 1000), digit (n div 100), digit (n div 10), digit n]"
proof -
  have e: "(4::nat) = Suc (Suc (Suc (Suc 0)))" by simp
  show ?thesis unfolding e by (simp add: div_mult2_eq [symmetric])
qed

lemma zero_padded4_low:
  "n \<le> 9999 \<Longrightarrow>
     zero_padded4 n = [digit (n div 1000), digit (n div 100), digit (n div 10), digit n]"
  by (simp add: zero_padded4_def digits_4)

section \<open>Gating of the public requests\<close>

text \<open>
  Claim C1. While the gate setting is \<open>paused\<close>, the initiate request and the confirm
  request are both answered with status 403 and the database is left as it was: no
  row is created and the id counter does not move.
\<close>

theorem paused_gate_rejects_both:
  "payment_status d = ''paused'' \<Longrightarrow>
     handle e d (now, InitiateManualPayment b) =
       (d, JsonError 403 ''Payments are currently paused by the administrator.'')
     \<and> handle e d (now, SubmitManualPayment b) =
       (d, JsonError 403 ''Payments are currently paused by the administrator.'')"
  by (simp add: initiate_manual_payment_def submit_manual_payment_def)

theorem paused_gate_rejects_both_witness:
  "run sample_env init_db [(t0, UpdateStatus (JStr ''paused''))] = paused_db
   \<and> payment_status paused_db = ''paused''
   \<and> handle sample_env paused_db (t0, InitiateManualPayment body0) =
       (paused_db, JsonError 403 ''Payments are currently paused by the administrator.'')
   \<and> handle sample_env paused_db (t0, SubmitManualPayment body0) =
       (paused_db, JsonError 403 ''Payments are currently paused by the administrator.'')"
proof -
  have r: "run sample_env init_db [(t0, UpdateStatus (JStr ''paused''))] = paused_db"
    by (simp add: update_status_def init_db_def paused_db_def)
  have h: "payment_status paused_db = ''paused''" by (simp add: paused_db_def)
  show ?thesis
    using r h paused_gate_rejects_both [OF h, of sample_env t0 body0] by simp
qed

section \<open>The transaction id\<close>

text \<open>
  Claim C2. A successful confirm returns the transaction id \<open>REC-YYYYMMDD-NNNN\<close> of the
  specification: the date is the current calendar date and the number is one more than
  the count of the rows (trashed or not) created on or after the start of the current
  day, zero-padded to four digits. The persisted row carries that id. When no row of the
  day is in the table the number is 0001, when one is, 0002.
\<close>

theorem confirm_transaction_id:
  assumes "valid_datetime now"
    and "map created_at (payments d) = map CURRENT_TIMESTAMP ts"
    and "\<forall>t \<in> set ts. valid_datetime t"
    and "submit_manual_payment e now d b = (d', PaymentSaved tid row)"
  shows "tid = spec_transaction_id now (length (filter (on_or_after_start_of_day now) ts))
         \<and> (\<exists>r. row = Some r \<and> transaction_id r = tid \<and> r \<in> set (payments d'))
         \<and> (length (filter (on_or_after_start_of_day now) ts) = 0 \<longrightarrow>
              tid = ''REC-'' @ YYYYMMDD now @ ''-0001'')
         \<and> (length (filter (on_or_after_start_of_day now) ts) = 1 \<longrightarrow>
              tid = ''REC-'' @ YYYYMMDD now @ ''-0002'')"
proof -
  let ?n = "length (filter (on_or_after_start_of_day now) ts)"
  have c: "count_today now d = ?n"
    using assms(1-3) by (rule count_today_spec)
  from submit_saved [OF assms(4)] obtain r where
    t: "tid = transactionId now d" and r: "row = Some r" "transaction_id r = tid"
      "d' = d\<lparr>payments := payments d @ [r], seq := next_id d\<rparr>"
    by blast
  have 1: "tid = spec_transaction_id now ?n"
    unfolding t transactionId_def spec_transaction_id_def c
    by (simp only: dateStr_YYYYMMDD [OF assms(1)] sequentialNumber_zero_padded4)
  have 2: "\<exists>r. row = Some r \<and> transaction_id r = tid \<and> r \<in> set (payments d')"
    using r by simp
  have 3: "spec_transaction_id now 0 = ''REC-'' @ YYYYMMDD now @ ''-0001''"
    by (simp add: spec_transaction_id_def zero_padded4_low digit_def)
  have 4: "spec_transaction_id now 1 = ''REC-'' @ YYYYMMDD now @ ''-0002''"
    by (simp add: spec_transaction_id_def zero_padded4_low digit_def)
  show ?thesis using 1 2 3 4 by simp
qed

theorem confirm_transaction_id_witness:
  "valid_datetime t0
   \<and> map created_at (payments (day_db (Suc 0))) = map CURRENT_TIMESTAMP [t0]
   \<and> submit_manual_payment sample_env t0 (day_db (Suc 0)) body0 =
       (day_db (Suc (Suc 0)), PaymentSaved ''REC-20261103-0002'' (Some (row0 (Suc (Suc 0)))))
   \<and> length (filter (on_or_after_start_of_day t0) [t0]) = 1
   \<and> ''REC-20261103-0002'' = ''REC-'' @ YYYYMMDD t0 @ ''-0002''"
proof -
  have h1: "valid_datetime t0" by (rule t0_valid)
  have h2: "map created_at (payments (day_db (Suc 0))) = map CURRENT_TIMESTAMP [t0]"
    by (simp add: day_db_def row0_def t0_texts)
  have h3: "\<forall>t \<in> set [t0]. valid_datetime t" by (simp add: t0_valid)
  have h4: "submit_manual_payment sample_env t0 (day_db (Suc 0)) body0 =
       (day_db (Suc (Suc 0)), PaymentSaved ''REC-20261103-0002'' (Some (row0 (Suc (Suc 0)))))"
    by (simp add: submit_day_db eval_string)
  have h5: "length (filter (on_or_after_start_of_day t0) [t0]) = 1"
    by (simp add: on_or_after_start_of_day_def)
  from confirm_transaction_id [OF h1 h2 h3 h4] h5
  have c: "''REC-20261103-0002'' = ''REC-'' @ YYYYMMDD t0 @ ''-0002''" by blast
  show ?thesis by (intro conjI h1 h2 h4 h5 c)
qed

section \<open>What the confirm request checks\<close>

text \<open>
  Claim C3, as amended. The confirm request checks the gate and nothing about the
  submitted fields: while the gate is not paused, a request whose name, phone and
  address are any texts and whose amount is any number, and whose transaction id is not
  yet in the table, creates a row holding these fields as they were sent. A request that
  is answered with an error leaves the database as it was.
\<close>

theorem confirm_checks_gate_only:
  "(payment_status d \<noteq> ''paused'' \<and> body_name b = JStr n \<and> body_phone b = JStr p
      \<and> body_address b = JStr a \<and> body_amount b = JNum m
      \<and> (\<forall>r \<in> set (payments d). transaction_id r \<noteq> transactionId now d) \<longrightarrow>
      submit_manual_payment e now d b =
        (d\<lparr>payments := payments d @
             [\<lparr>id_col = next_id d, transaction_id = transactionId now d, name = n,
               phone = p, address = a, amount = SNum m, status = ''success'',
               is_trashed = False, created_at = CURRENT_TIMESTAMP now\<rparr>],
           seq := next_id d\<rparr>,
         PaymentSaved (transactionId now d)
           (Some \<lparr>id_col = next_id d, transaction_id = transactionId now d, name = n,
               phone = p, address = a, amount = SNum m, status = ''success'',
               is_trashed = False, created_at = CURRENT_TIMESTAMP now\<rparr>)))
   \<and> (submit_manual_payment e now d b = (d', JsonError c msg) \<longrightarrow> d' = d)"
proof (intro conjI impI)
  assume h: "payment_status d \<noteq> ''paused'' \<and> body_name b = JStr n \<and> body_phone b = JStr p
      \<and> body_address b = JStr a \<and> body_amount b = JNum m
      \<and> (\<forall>r \<in> set (payments d). transaction_id r \<noteq> transactionId now d)"
  show "submit_manual_payment e now d b =
        (d\<lparr>payments := payments d @
             [\<lparr>id_col = next_id d, transaction_id = transactionId now d, name = n,
               phone = p, address = a, amount = SNum m, status = ''success'',
               is_trashed = False, created_at = CURRENT_TIMESTAMP now\<rparr>],
           seq := next_id d\<rparr>,
         PaymentSaved (transactionId now d)
           (Some \<lparr>id_col = next_id d, transaction_id = transactionId now d, name = n,
               phone = p, address = a, amount = SNum m, status = ''success'',
               is_trashed = False, created_at = CURRENT_TIMESTAMP now\<rparr>))"
    by (rule submit_creates) (use h in auto)
next
  assume "submit_manual_payment e now d b = (d', JsonError c msg)"
  then show "d' = d" by (rule submit_error)
qed

lemma day_db_0: "day_db 0 = init_db"
  by (simp add: day_db_def init_db_def)

lemma sequentialNumber_0: "sequentialNumber 0 = ''0001''"
  by (simp add: eval_string)

lemma submit_body_bad:
  "submit_manual_payment sample_env t0 init_db body_bad =
     (\<lparr>payments =
          [\<lparr>id_col = 1, transaction_id = ''REC-20261103-0001'', name = ''Asha'',
            phone = ''12345'', address = ''12 Lake Road'', amount = SNum 99,
            status = ''success'', is_trashed = False, created_at = ''2026-11-03 09:05:00''\<rparr>],
        payment_status = ''active'', seq = 1\<rparr>,
      PaymentSaved ''REC-20261103-0001''
        (Some \<lparr>id_col = 1, transaction_id = ''REC-20261103-0001'', name = ''Asha'',
            phone = ''12345'', address = ''12 Lake Road'', amount = SNum 99,
            status = ''success'', is_trashed = False, created_at = ''2026-11-03 09:05:00''\<rparr>))"
proof -
  have "submit_manual_payment sample_env t0 (day_db 0) body_bad =
          ((day_db 0)\<lparr>payments := payments (day_db 0) @
             [\<lparr>id_col = next_id (day_db 0), transaction_id = transactionId t0 (day_db 0),
               name = ''Asha'', phone = ''12345'', address = ''12 Lake Road'', amount = SNum 99,
               status = ''success'', is_trashed = False, created_at = CURRENT_TIMESTAMP t0\<rparr>],
           seq := next_id (day_db 0)\<rparr>,
         PaymentSaved (transactionId t0 (day_db 0))
           (Some \<lparr>id_col = next_id (day_db 0), transaction_id = transactionId t0 (day_db 0),
               name = ''Asha'', phone = ''12345'', address = ''12 Lake Road'', amount = SNum 99,
               status = ''success'', is_trashed = False, created_at = CURRENT_TIMESTAMP t0\<rparr>))"
    by (rule submit_creates) (simp_all add: day_db_def body_bad_def)
  then show ?thesis
    unfolding transactionId_day_db next_id_day_db t0_texts sequentialNumber_0
    by (simp add: day_db_def init_db_def)
qed

theorem confirm_checks_gate_only_witness:
  "payment_status (init_db :: nat db) \<noteq> ''paused'' \<and> body_name body_bad = JStr ''Asha''
   \<and> body_phone body_bad = JStr ''12345'' \<and> body_address body_bad = JStr ''12 Lake Road''
   \<and> body_amount body_bad = JNum 99 \<and> payments (init_db :: nat db) = []
   \<and> submit_manual_payment sample_env t0 init_db body_bad =
        (init_db\<lparr>payments := payments init_db @
             [\<lparr>id_col = next_id (init_db :: nat db),
               transaction_id = transactionId t0 (init_db :: nat db), name = ''Asha'',
               phone = ''12345'', address = ''12 Lake Road'', amount = SNum 99,
               status = ''success'', is_trashed = False, created_at = CURRENT_TIMESTAMP t0\<rparr>],
           seq := next_id (init_db :: nat db)\<rparr>,
         PaymentSaved (transactionId t0 (init_db :: nat db))
           (Some \<lparr>id_col = next_id (init_db :: nat db),
               transaction_id = transactionId t0 (init_db :: nat db), name = ''Asha'',
               phone = ''12345'', address = ''12 Lake Road'', amount = SNum 99,
               status = ''success'', is_trashed = False, created_at = CURRENT_TIMESTAMP t0\<rparr>))
   \<and> submit_manual_payment sample_env t0 paused_db body_bad =
        (paused_db, JsonError 403 ''Payments are currently paused by the administrator.'')"
proof -
  have h: "payment_status (init_db :: nat db) \<noteq> ''paused'' \<and> body_name body_bad = JStr ''Asha''
      \<and> body_phone body_bad = JStr ''12345'' \<and> body_address body_bad = JStr ''12 Lake Road''
      \<and> body_amount body_bad = JNum 99
      \<and> (\<forall>r \<in> set (payments (init_db :: nat db)).
            transaction_id r \<noteq> transactionId t0 (init_db :: nat db))"
    by (simp add: init_db_def body_bad_def)
  have e: "payments (init_db :: nat db) = []" by (simp add: init_db_def)
  have p: "submit_manual_payment sample_env t0 paused_db body_bad =
        (paused_db, JsonError 403 ''Payments are currently paused by the administrator.'')"
    by (simp add: submit_manual_payment_def paused_db_def)
  have q: "paused_db = paused_db"
    using confirm_checks_gate_only
      [where d = paused_db and e = sample_env and now = t0 and b = body_bad and d' = paused_db
         and c = 403 and msg = "''Payments are currently paused by the administrator.''"] p
    by blast
  from confirm_checks_gate_only
      [where d = "init_db :: nat db" and e = sample_env and now = t0 and b = body_bad
         and n = "''Asha''" and p = "''12345''" and a = "''12 Lake Road''" and m = 99] h
  have s: "submit_manual_payment sample_env t0 init_db body_bad =
        (init_db\<lparr>payments := payments init_db @
             [\<lparr>id_col = next_id (init_db :: nat db),
               transaction_id = transactionId t0 (init_db :: nat db), name = ''Asha'',
               phone = ''12345'', address = ''12 Lake Road'', amount = SNum 99,
               status = ''success'', is_trashed = False, created_at = CURRENT_TIMESTAMP t0\<rparr>],
           seq := next_id (init_db :: nat db)\<rparr>,
         PaymentSaved (transactionId t0 (init_db :: nat db))
           (Some \<lparr>id_col = next_id (init_db :: nat db),
               transaction_id = transactionId t0 (init_db :: nat db), name = ''Asha'',
               phone = ''12345'', address = ''12 Lake Road'', amount = SNum 99,
               status = ''success'', is_trashed = False, created_at = CURRENT_TIMESTAMP t0\<rparr>))"
    by blast
  show ?thesis using h e s p by blast
qed

text \<open>
  The claim as the specification states it fails: a confirm request with a five-digit
  phone and an amount of 99 is not refused, it creates a row.
\<close>

theorem confirm_accepts_invalid_fields:
  "submit_manual_payment sample_env t0 init_db body_bad =
     (\<lparr>payments =
          [\<lparr>id_col = 1, transaction_id = ''REC-20261103-0001'', name = ''Asha'',
            phone = ''12345'', address = ''12 Lake Road'', amount = SNum 99,
            status = ''success'', is_trashed = False, created_at = ''2026-11-03 09:05:00''\<rparr>],
        payment_status = ''active'', seq = 1\<rparr>,
      PaymentSaved ''REC-20261103-0001''
        (Some \<lparr>id_col = 1, transaction_id = ''REC-20261103-0001'', name = ''Asha'',
            phone = ''12345'', address = ''12 Lake Road'', amount = SNum 99,
            status = ''success'', is_trashed = False, created_at = ''2026-11-03 09:05:00''\<rparr>))"
  by (rule submit_body_bad)

section \<open>More than 9999 payments on one day\<close>

text \<open>
  Claim C4, as amended. When 9999 or more rows of the current day are counted, the
  generation of the transaction id does not fail: the sequence field is the decimal
  numeral of the count plus one, written out in full with five or more digits, it
  differs from the field of every other count, and the confirm request goes on to insert
  the row (here for a request with text fields and a numeric amount whose id is not yet
  in the table).
\<close>

theorem sequence_overflow_not_detected:
  assumes "9999 \<le> count_today now d"
    and "payment_status d \<noteq> ''paused''"
    and "body_name b = JStr n" and "body_phone b = JStr p" and "body_address b = JStr a"
    and "body_amount b = JNum m"
    and "\<forall>r \<in> set (payments d). transaction_id r \<noteq> transactionId now d"
  shows "transactionId now d = ''REC-'' @ dateStr now @ ''-'' @ dec (count_today now d + 1)
         \<and> 5 \<le> length (dec (count_today now d + 1))
         \<and> (\<forall>k. sequentialNumber k = sequentialNumber (count_today now d) \<longrightarrow>
                k = count_today now d)
         \<and> (\<exists>r. submit_manual_payment e now d b =
                   (d\<lparr>payments := payments d @ [r], seq := next_id d\<rparr>,
                    PaymentSaved (transactionId now d) (Some r))
                 \<and> transaction_id r = transactionId now d)"
proof -
  note big = sequentialNumber_big [OF assms(1)]
  have 1: "transactionId now d = ''REC-'' @ dateStr now @ ''-'' @ dec (count_today now d + 1)"
    unfolding transactionId_def using big by simp
  have 2: "5 \<le> length (dec (count_today now d + 1))"
    using big by simp
  have 3: "\<forall>k. sequentialNumber k = sequentialNumber (count_today now d) \<longrightarrow>
                k = count_today now d"
    using sequentialNumber_inj by blast
  have "submit_manual_payment e now d b =
           (d\<lparr>payments := payments d @
                [\<lparr>id_col = next_id d, transaction_id = transactionId now d, name = n,
                  phone = p, address = a, amount = SNum m, status = ''success'',
                  is_trashed = False, created_at = CURRENT_TIMESTAMP now\<rparr>],
              seq := next_id d\<rparr>,
            PaymentSaved (transactionId now d)
              (Some \<lparr>id_col = next_id d, transaction_id = transactionId now d, name = n,
                  phone = p, address = a, amount = SNum m, status = ''success'',
                  is_trashed = False, created_at = CURRENT_TIMESTAMP now\<rparr>))"
    by (rule submit_creates) (use assms in auto)
  then have 4: "\<exists>r. submit_manual_payment e now d b =
                   (d\<lparr>payments := payments d @ [r], seq := next_id d\<rparr>,
                    PaymentSaved (transactionId now d) (Some r))
                 \<and> transaction_id r = transactionId now d"
    by (intro exI [where x = "\<lparr>id_col = next_id d, transaction_id = transactionId now d,
                  name = n, phone = p, address = a, amount = SNum m, status = ''success'',
                  is_trashed = False, created_at = CURRENT_TIMESTAMP now\<rparr>"]) simp
  show ?thesis using 1 2 3 4 by blast
qed

lemma dec_10000: "dec 10000 = ''10000''"
  by (simp add: dec_small dec_big digit_def)

lemma sequentialNumber_9999: "sequentialNumber 9999 = ''10000''"
  by (simp add: sequentialNumber_def padStart_def dec_10000)

theorem sequence_overflow_not_detected_witness:
  "9999 \<le> count_today t0 (day_db 9999)
   \<and> payment_status (day_db 9999) \<noteq> ''paused''
   \<and> body_name body0 = JStr ''Asha'' \<and> body_phone body0 = JStr ''9876543210''
   \<and> body_address body0 = JStr ''12 Lake Road'' \<and> body_amount body0 = JNum 500
   \<and> transactionId t0 (day_db 9999) = ''REC-20261103-10000''
   \<and> 5 \<le> length (dec (count_today t0 (day_db 9999) + 1))"
proof -
  have h1: "9999 \<le> count_today t0 (day_db 9999)" by (simp add: count_today_day_db)
  have h2: "payment_status (day_db 9999) \<noteq> ''paused''" by (simp add: day_db_def)
  have h3: "body_name body0 = JStr ''Asha''" "body_phone body0 = JStr ''9876543210''"
    "body_address body0 = JStr ''12 Lake Road''" "body_amount body0 = JNum 500"
    by (simp_all add: body0_def)
  have h4: "\<forall>r \<in> set (payments (day_db 9999)).
              transaction_id r \<noteq> transactionId t0 (day_db 9999)"
    using transactionId_day_db_free by blast
  note th = sequence_overflow_not_detected [OF h1 h2 h3 h4, of sample_env]
  have c1: "transactionId t0 (day_db 9999) = ''REC-20261103-10000''"
    using th by (simp add: count_today_day_db t0_texts dec_10000)
  have c2: "5 \<le> length (dec (count_today t0 (day_db 9999) + 1))"
    using th by blast
  show ?thesis by (intro conjI h1 h2 h3 c1 c2)
qed

text \<open>
  The claim as the specification states it fails: after 9999 confirmations on one day,
  the next two confirm requests of that day are not refused; they are answered with the
  five-digit ids \<open>REC-20261103-10000\<close> and \<open>REC-20261103-10001\<close> and the rows are
  stored.
\<close>

theorem ten_thousandth_confirm_succeeds:
  "submit_manual_payment sample_env t0
     (run sample_env init_db (replicate 9999 (t0, SubmitManualPayment body0))) body0 =
   (day_db 10000,
    PaymentSaved ''REC-20261103-10000''
      (Some \<lparr>id_col = 10000, transaction_id = ''REC-20261103-10000'', name = ''Asha'',
             phone = ''9876543210'', address = ''12 Lake Road'', amount = SNum 500,
             status = ''success'', is_trashed = False,
             created_at = ''2026-11-03 09:05:00''\<rparr>))
   \<and> submit_manual_payment sample_env t0
     (run sample_env init_db (replicate 10000 (t0, SubmitManualPayment body0))) body0 =
   (day_db 10001,
    PaymentSaved ''REC-20261103-10001''
      (Some \<lparr>id_col = 10001, transaction_id = ''REC-20261103-10001'', name = ''Asha'',
             phone = ''9876543210'', address = ''12 Lake Road'', amount = SNum 500,
             status = ''success'', is_trashed = False,
             created_at = ''2026-11-03 09:05:00''\<rparr>))"
proof -
  have s: "Suc 9999 = 10000" "Suc 10000 = 10001" by simp_all
  have n: "sequentialNumber 10000 = ''10001''"
    by (simp add: sequentialNumber_def padStart_def dec_small dec_big digit_def)
  have r: "row0 10000 = \<lparr>id_col = 10000, transaction_id = ''REC-20261103-10000'', name = ''Asha'',
             phone = ''9876543210'', address = ''12 Lake Road'', amount = SNum 500,
             status = ''success'', is_trashed = False,
             created_at = ''2026-11-03 09:05:00''\<rparr>"
    "row0 10001 = \<lparr>id_col = 10001, transaction_id = ''REC-20261103-10001'', name = ''Asha'',
             phone = ''9876543210'', address = ''12 Lake Road'', amount = SNum 500,
             status = ''success'', is_trashed = False,
             created_at = ''2026-11-03 09:05:00''\<rparr>"
    by (simp_all add: row0_def sequentialNumber_9999 n)
  show ?thesis
    unfolding run_day_db submit_day_db s sequentialNumber_9999 n r by simp
qed

section \<open>A transaction id that is already taken\<close>

text \<open>
  Claim C5, as amended. When the generated transaction id is already in the table, the
  insert fails on the uniqueness constraint and the confirm request makes no further
  attempt: the one failure is answered with status 500 and the message
  \<open>Failed to save payment\<close>, and the database is left as it was.
\<close>

theorem duplicate_id_fails_without_retry:
  assumes "payment_status d \<noteq> ''paused''"
    and "\<exists>r \<in> set (payments d). transaction_id r = transactionId now d"
  shows "submit_manual_payment e now d b = (d, JsonError 500 ''Failed to save payment'')"
proof -
  obtain err where "insert_payment e now d (transactionId now d) b ''success'' = Inl err"
    using insert_payment_unique [OF assms(2)] by blast
  with assms(1) show ?thesis by (rule submit_unique_fails)
qed

lemma sequentialNumber_1: "sequentialNumber 1 = ''0002''" "sequentialNumber (Suc 0) = ''0002''"
  by (simp_all add: sequentialNumber_def padStart_def dec_small digit_def replicate_numeral)

lemma row0_2_tid: "transaction_id (row0 2) = ''REC-20261103-0002''"
  by (simp add: row0_def sequentialNumber_1)

lemma count_today_purged_db: "count_today t0 purged_db = 1"
  by (simp add: count_today_def purged_db_def row0_def t0_texts)

lemma transactionId_purged_db: "transactionId t0 purged_db = ''REC-20261103-0002''"
  unfolding transactionId_def count_today_purged_db sequentialNumber_1 t0_texts by simp

lemmas purged_db_texts = count_today_purged_db transactionId_purged_db row0_2_tid

theorem duplicate_id_fails_without_retry_witness:
  "payment_status purged_db \<noteq> ''paused''
   \<and> row0 2 \<in> set (payments purged_db)
   \<and> transaction_id (row0 2) = transactionId t0 purged_db
   \<and> submit_manual_payment sample_env t0 purged_db body0 =
       (purged_db, JsonError 500 ''Failed to save payment'')"
proof -
  have h1: "payment_status purged_db \<noteq> ''paused''" by (simp add: purged_db_def)
  have m: "row0 2 \<in> set (payments purged_db)" by (simp add: purged_db_def)
  have t: "transaction_id (row0 2) = transactionId t0 purged_db" by (simp add: purged_db_texts)
  have h2: "\<exists>r \<in> set (payments purged_db). transaction_id r = transactionId t0 purged_db"
    using m t by blast
  show ?thesis
    using duplicate_id_fails_without_retry [OF h1 h2, of sample_env body0] h1 m t by blast
qed

text \<open>
  The claim as the specification states it fails. Two payments are confirmed, the first
  is trashed and purged; the next confirm request of the day generates the id of the row
  that is left, the insert is refused as a duplicate, and the request ends there with the
  general error instead of a further attempt.
\<close>

theorem duplicate_id_is_fatal:
  "run sample_env init_db
     [(t0, SubmitManualPayment body0), (t0, SubmitManualPayment body0),
      (t0, DeletePayment 1), (t0, PermanentDelete 1)] = purged_db
   \<and> insert_payment sample_env t0 purged_db (transactionId t0 purged_db) body0 ''success'' =
       Inl UniqueConstraint
   \<and> submit_manual_payment sample_env t0 purged_db body0 =
       (purged_db, JsonError 500 ''Failed to save payment'')"
proof -
  have d2: "fst (submit_manual_payment sample_env t0
              (fst (submit_manual_payment sample_env t0 init_db body0)) body0) =
            day_db (Suc (Suc 0))"
    using submit_day_db [of 0] submit_day_db [of "Suc 0"] by (simp add: day_db_0)
  have 1: "run sample_env init_db
     [(t0, SubmitManualPayment body0), (t0, SubmitManualPayment body0),
      (t0, DeletePayment 1), (t0, PermanentDelete 1)] = purged_db"
    by (simp add: d2)
       (simp add: day_db_def row0_def delete_payment_def permanent_delete_def purged_db_def)
  have 2: "insert_payment sample_env t0 purged_db (transactionId t0 purged_db) body0 ''success'' =
       Inl UniqueConstraint"
    unfolding transactionId_purged_db
    by (simp add: insert_payment_def body0_def purged_db_def row0_2_tid)
  have 3: "submit_manual_payment sample_env t0 purged_db body0 =
       (purged_db, JsonError 500 ''Failed to save payment'')"
    by (rule submit_unique_fails [OF _ 2]) (simp add: purged_db_def)
  show ?thesis by (intro conjI 1 2 3)
qed

section \<open>Trash, restore and permanent delete\<close>

text \<open>
  Claim C6. The permanent delete of the row with a given id removes the row only when
  its \<open>is_trashed\<close> flag is set; the row then appears neither in the listing of the
  active rows nor in the listing of the trash, and the other rows stay. When the flag is
  not set, the database is left as it was.
\<close>

theorem permanent_delete_only_trashed:
  assumes "distinct (map id_col (payments d))" and "r \<in> set (payments d)" and "id_col r = i"
  shows "(is_trashed r \<longrightarrow>
            payments (fst (permanent_delete d i)) = filter (\<lambda>q. q \<noteq> r) (payments d)
            \<and> (\<forall>q \<in> set (admin_payments (fst (permanent_delete d i)))
                     \<union> set (admin_trash (fst (permanent_delete d i))). id_col q \<noteq> i))
       \<and> (\<not> is_trashed r \<longrightarrow> fst (permanent_delete d i) = d)"
proof -
  have uniq: "q = r" if "q \<in> set (payments d)" "id_col q = i" for q
    using unique_row [OF assms(1) assms(2) that(1)] that(2) assms(3) by simp
  have a: "filter (\<lambda>q. \<not> (id_col q = i \<and> is_trashed q)) (payments d) =
           filter (\<lambda>q. q \<noteq> r) (payments d)"
    if "is_trashed r"
  proof (rule filter_cong [OF refl])
    fix q assume "q \<in> set (payments d)"
    then show "(\<not> (id_col q = i \<and> is_trashed q)) = (q \<noteq> r)"
      using uniq that assms(3) by blast
  qed
  have b: "filter (\<lambda>q. \<not> (id_col q = i \<and> is_trashed q)) (payments d) = payments d"
    if "\<not> is_trashed r"
    unfolding filter_id_conv using that uniq by blast
  have p: "payments (fst (permanent_delete d i)) =
           filter (\<lambda>q. \<not> (id_col q = i \<and> is_trashed q)) (payments d)"
    by (simp add: permanent_delete_def)
  have c: "\<forall>q \<in> set (admin_payments (fst (permanent_delete d i)))
                     \<union> set (admin_trash (fst (permanent_delete d i))). id_col q \<noteq> i"
    if "is_trashed r"
  proof
    fix q assume "q \<in> set (admin_payments (fst (permanent_delete d i)))
                     \<union> set (admin_trash (fst (permanent_delete d i)))"
    then have "q \<in> set (payments (fst (permanent_delete d i)))"
      by (auto simp: admin_payments_def admin_trash_def set_order_by)
    then have "q \<in> set (payments d)" "q \<noteq> r"
      unfolding p a [OF that] by auto
    then show "id_col q \<noteq> i" using uniq by blast
  qed
  have e: "fst (permanent_delete d i) = d" if "\<not> is_trashed r"
    using b [OF that] by (simp add: permanent_delete_def)
  show ?thesis using a p c e by simp
qed

theorem permanent_delete_only_trashed_witness:
  "distinct (map id_col (payments trashed_db))
   \<and> (row0 1)\<lparr>is_trashed := True\<rparr> \<in> set (payments trashed_db)
   \<and> id_col ((row0 1)\<lparr>is_trashed := True\<rparr>) = 1
   \<and> is_trashed ((row0 1)\<lparr>is_trashed := True\<rparr>)
   \<and> payments (fst (permanent_delete trashed_db 1)) = []
   \<and> distinct (map id_col (payments (day_db (Suc 0))))
   \<and> row0 (Suc 0) \<in> set (payments (day_db (Suc 0)))
   \<and> id_col (row0 (Suc 0)) = 1
   \<and> \<not> is_trashed (row0 (Suc 0))
   \<and> fst (permanent_delete (day_db (Suc 0)) 1) = day_db (Suc 0)"
proof -
  have a1: "distinct (map id_col (payments trashed_db))" by (simp add: trashed_db_def)
  have a2: "(row0 1)\<lparr>is_trashed := True\<rparr> \<in> set (payments trashed_db)"
    by (simp add: trashed_db_def)
  have a3: "id_col ((row0 1)\<lparr>is_trashed := True\<rparr>) = 1" by (simp add: row0_def)
  have a4: "is_trashed ((row0 1)\<lparr>is_trashed := True\<rparr>)" by simp
  have a5: "payments (fst (permanent_delete trashed_db 1)) = []"
    using permanent_delete_only_trashed [OF a1 a2 a3] a4 by (simp add: trashed_db_def)
  have b1: "distinct (map id_col (payments (day_db (Suc 0))))" by (simp add: day_db_def)
  have b2: "row0 (Suc 0) \<in> set (payments (day_db (Suc 0)))" by (simp add: day_db_def)
  have b3: "id_col (row0 (Suc 0)) = 1" by (simp add: row0_def)
  have b4: "\<not> is_trashed (row0 (Suc 0))" by (simp add: row0_def)
  have b5: "fst (permanent_delete (day_db (Suc 0)) 1) = day_db (Suc 0)"
    using permanent_delete_only_trashed [OF b1 b2 b3] b4 by blast
  show ?thesis by (intro conjI a1 a2 a3 a4 a5 b1 b2 b3 b4 b5)
qed

text \<open>
  Claim C7, as amended. Trashing all rows and then restoring all rows leaves every row
  of the table active with its other fields as before. The rows that were active before
  are all in the active listing afterwards; the active listing is exactly the one before
  when no row was in the trash before, and otherwise it also holds the rows that were in
  the trash.
\<close>

theorem trash_all_then_restore_all:
  "payments (fst (restore_payments (fst (clear_payments d)))) =
     map (\<lambda>r. r\<lparr>is_trashed := False\<rparr>) (payments d)
   \<and> set (admin_payments d)
       \<subseteq> set (admin_payments (fst (restore_payments (fst (clear_payments d)))))
   \<and> admin_trash (fst (restore_payments (fst (clear_payments d)))) = []
   \<and> ((\<forall>r \<in> set (payments d). \<not> is_trashed r) \<longrightarrow>
        fst (restore_payments (fst (clear_payments d))) = d)"
proof -
  have p: "payments (fst (restore_payments (fst (clear_payments d)))) =
     map (\<lambda>r. r\<lparr>is_trashed := False\<rparr>) (payments d)"
    by (simp add: restore_payments_def clear_payments_def)
  have s: "set (admin_payments d)
             \<subseteq> set (admin_payments (fst (restore_payments (fst (clear_payments d)))))"
  proof
    fix r assume "r \<in> set (admin_payments d)"
    then have r: "r \<in> set (payments d)" "\<not> is_trashed r"
      by (auto simp: admin_payments_def set_order_by)
    then have "r\<lparr>is_trashed := False\<rparr> \<in> set (map (\<lambda>r. r\<lparr>is_trashed := False\<rparr>) (payments d))"
      by (simp only: set_map) (rule imageI)
    then have "r \<in> set (map (\<lambda>r. r\<lparr>is_trashed := False\<rparr>) (payments d))"
      using untrash_same [OF r(2)] by simp
    then show "r \<in> set (admin_payments (fst (restore_payments (fst (clear_payments d)))))"
      unfolding admin_payments_def p set_order_by using r(2) by simp
  qed
  have "filter is_trashed (map (\<lambda>r. r\<lparr>is_trashed := False\<rparr>) (payments d)) = []"
    by (simp add: filter_empty_conv)
  then have t: "admin_trash (fst (restore_payments (fst (clear_payments d)))) = []"
    unfolding admin_trash_def p by (simp add: order_by_created_at_desc_def)
  have w: "fst (restore_payments (fst (clear_payments d))) =
      d\<lparr>payments := map (\<lambda>r. r\<lparr>is_trashed := False\<rparr>) (payments d)\<rparr>"
    by (simp add: restore_payments_def clear_payments_def)
  have "map (\<lambda>r. r\<lparr>is_trashed := False\<rparr>) (payments d) = payments d"
    if "\<forall>r \<in> set (payments d). \<not> is_trashed r"
    by (rule map_same) (use that in \<open>simp add: untrash_same\<close>)
  then have e: "(\<forall>r \<in> set (payments d). \<not> is_trashed r) \<longrightarrow>
        fst (restore_payments (fst (clear_payments d))) = d"
    unfolding w by simp
  show ?thesis using p s t e by blast
qed

theorem trash_all_then_restore_all_witness:
  "\<not> is_trashed (row0 (Suc 0))
   \<and> payments (day_db (Suc 0)) = [row0 (Suc 0)]
   \<and> fst (restore_payments (fst (clear_payments (day_db (Suc 0))))) = day_db (Suc 0)"
proof -
  have a: "\<not> is_trashed (row0 (Suc 0))" by (simp add: row0_def)
  have b: "payments (day_db (Suc 0)) = [row0 (Suc 0)]" by (simp add: day_db_def)
  have "\<forall>r \<in> set (payments (day_db (Suc 0))). \<not> is_trashed r" using a b by simp
  then have c: "fst (restore_payments (fst (clear_payments (day_db (Suc 0))))) = day_db (Suc 0)"
    using trash_all_then_restore_all [of "day_db (Suc 0)"] by blast
  show ?thesis by (intro conjI a b c)
qed

text \<open>
  The claim as the specification states it fails when a row is in the trash before:
  the active listing is empty before and holds the row afterwards.
\<close>

theorem trash_all_then_restore_all_adds_trashed:
  "run sample_env init_db [(t0, SubmitManualPayment body0), (t0, DeletePayment 1)] = trashed_db
   \<and> admin_payments trashed_db = []
   \<and> admin_payments (fst (restore_payments (fst (clear_payments trashed_db)))) = [row0 1]"
proof -
  have "fst (submit_manual_payment sample_env t0 init_db body0) = day_db (Suc 0)"
    using submit_day_db [of 0] by (simp add: day_db_0)
  then have r: "run sample_env init_db [(t0, SubmitManualPayment body0), (t0, DeletePayment 1)] =
      trashed_db"
    by (simp add: day_db_def row0_def delete_payment_def trashed_db_def)
  have a: "admin_payments trashed_db = []"
    by (simp add: admin_payments_def order_by_created_at_desc_def trashed_db_def)
  have b: "admin_payments (fst (restore_payments (fst (clear_payments trashed_db)))) = [row0 1]"
    by (simp add: admin_payments_def order_by_created_at_desc_def trashed_db_def
        restore_payments_def clear_payments_def row0_def)
  show ?thesis by (intro conjI r a b)
qed

text \<open>
  Claim C8. Moving the row with a given id to the trash and restoring it leaves the row
  with \<open>is_trashed\<close> unset and every other field as before; the other rows, the gate
  and the id counter are as before.
\<close>

theorem trash_then_restore:
  "r \<in> set (payments d) \<Longrightarrow> id_col r = i \<Longrightarrow>
     payments (fst (restore_payment (fst (delete_payment d i)) i)) =
       map (\<lambda>q. if id_col q = i then q\<lparr>is_trashed := False\<rparr> else q) (payments d)
     \<and> r\<lparr>is_trashed := False\<rparr> \<in> set (payments (fst (restore_payment (fst (delete_payment d i)) i)))
     \<and> payment_status (fst (restore_payment (fst (delete_payment d i)) i)) = payment_status d
     \<and> seq (fst (restore_payment (fst (delete_payment d i)) i)) = seq d"
proof -
  assume r: "r \<in> set (payments d)" and i: "id_col r = i"
  let ?f = "\<lambda>q. if id_col q = i then q\<lparr>is_trashed := False\<rparr> else q"
  have w: "fst (restore_payment (fst (delete_payment d i)) i) = d\<lparr>payments := map ?f (payments d)\<rparr>"
    by (simp add: restore_payment_def delete_payment_def comp_def if_distrib cong: if_cong)
  have "?f r \<in> set (map ?f (payments d))"
    using r by (simp only: set_map) (rule imageI)
  then have m: "r\<lparr>is_trashed := False\<rparr> \<in> set (map ?f (payments d))"
    using i by simp
  show ?thesis unfolding w using m by simp
qed

theorem trash_then_restore_witness:
  "row0 (Suc 0) \<in> set (payments (day_db (Suc 0))) \<and> id_col (row0 (Suc 0)) = 1
   \<and> payments (fst (restore_payment (fst (delete_payment (day_db (Suc 0)) 1)) 1)) =
       [row0 (Suc 0)]"
proof -
  have a: "row0 (Suc 0) \<in> set (payments (day_db (Suc 0)))" by (simp add: day_db_def)
  have b: "id_col (row0 (Suc 0)) = 1" by (simp add: row0_def)
  have c: "payments (fst (restore_payment (fst (delete_payment (day_db (Suc 0)) 1)) 1)) =
       [row0 (Suc 0)]"
    using trash_then_restore [OF a b] by (simp add: day_db_def row0_def)
  show ?thesis by (intro conjI a b c)
qed

text \<open>
  Claim C9, as amended. For an id that is absent or whose row is already in the state
  asked for (trash of a trashed row, restore or permanent delete of an active row), the
  three handlers leave the database as it was and answer \<open>success: true\<close>.
\<close>

theorem absent_or_wrong_state_is_noop:
  "((\<forall>r \<in> set (payments d). id_col r = i \<longrightarrow> is_trashed r) \<longrightarrow>
       delete_payment d i = (d, Success))
   \<and> ((\<forall>r \<in> set (payments d). id_col r = i \<longrightarrow> \<not> is_trashed r) \<longrightarrow>
        restore_payment d i = (d, Success) \<and> permanent_delete d i = (d, Success))"
proof -
  have 1: "map (\<lambda>r. if id_col r = i then r\<lparr>is_trashed := True\<rparr> else r) (payments d) = payments d"
    if "\<forall>r \<in> set (payments d). id_col r = i \<longrightarrow> is_trashed r"
    by (rule map_same) (use that in \<open>auto simp: trash_same\<close>)
  have 2: "map (\<lambda>r. if id_col r = i then r\<lparr>is_trashed := False\<rparr> else r) (payments d) = payments d"
    if "\<forall>r \<in> set (payments d). id_col r = i \<longrightarrow> \<not> is_trashed r"
    by (rule map_same) (use that in \<open>auto simp: untrash_same\<close>)
  have 3: "filter (\<lambda>r. \<not> (id_col r = i \<and> is_trashed r)) (payments d) = payments d"
    if "\<forall>r \<in> set (payments d). id_col r = i \<longrightarrow> \<not> is_trashed r"
    using that by (auto simp: filter_id_conv)
  show ?thesis
    using 1 2 3 by (simp add: delete_payment_def restore_payment_def permanent_delete_def)
qed

theorem absent_or_wrong_state_is_noop_witness:
  "payments (day_db (Suc 0)) = [row0 (Suc 0)] \<and> id_col (row0 (Suc 0)) = 1
   \<and> \<not> is_trashed (row0 (Suc 0))
   \<and> delete_payment (day_db (Suc 0)) 7 = (day_db (Suc 0), Success)
   \<and> restore_payment (day_db (Suc 0)) 1 = (day_db (Suc 0), Success)
   \<and> permanent_delete (day_db (Suc 0)) 1 = (day_db (Suc 0), Success)"
proof -
  have a: "payments (day_db (Suc 0)) = [row0 (Suc 0)]" by (simp add: day_db_def)
  have b: "id_col (row0 (Suc 0)) = 1" by (simp add: row0_def)
  have c: "\<not> is_trashed (row0 (Suc 0))" by (simp add: row0_def)
  have h7: "\<forall>r \<in> set (payments (day_db (Suc 0))). id_col r = 7 \<longrightarrow> is_trashed r"
    using a b by simp
  have h1: "\<forall>r \<in> set (payments (day_db (Suc 0))). id_col r = 1 \<longrightarrow> \<not> is_trashed r"
    using a c by simp
  have d: "delete_payment (day_db (Suc 0)) 7 = (day_db (Suc 0), Success)"
    using absent_or_wrong_state_is_noop [of "day_db (Suc 0)" 7] h7 by blast
  have e: "restore_payment (day_db (Suc 0)) 1 = (day_db (Suc 0), Success)"
    "permanent_delete (day_db (Suc 0)) 1 = (day_db (Suc 0), Success)"
    using absent_or_wrong_state_is_noop [of "day_db (Suc 0)" 1] h1 by blast+
  show ?thesis by (intro conjI a b c d e)
qed

text \<open>
  The claim as the specification states it fails in what is reported: on an empty
  table the three handlers answer \<open>success: true\<close>, not \<open>success: false\<close>.
\<close>

theorem noop_reports_success_true:
  "success_field (snd (delete_payment (init_db :: nat db) 7)) = Some True
   \<and> success_field (snd (restore_payment (init_db :: nat db) 7)) = Some True
   \<and> success_field (snd (permanent_delete (init_db :: nat db) 7)) = Some True"
  by (simp add: delete_payment_def restore_payment_def permanent_delete_def)

section \<open>The admin login and the admin operations\<close>

text \<open>
  Claim C10, as amended. The login compares the submitted credentials with the
  configured ones and reports the result; it changes nothing and the server keeps no
  record of it. The admin operations take no credential and are not gated by a login:
  the state that the server reaches on a sequence of requests is the state it reaches on
  the same sequence with every login request left out.
\<close>

theorem login_does_not_gate_admin_operations:
  "run e d rqs = run e d (filter (\<lambda>rq. \<not> is_login (snd rq)) rqs)
   \<and> (admin_login e u p = LoginOk ''admin-session-token'' \<longleftrightarrow>
        u = JStr (or_default (ADMIN_USERNAME e) ''Abhay'')
        \<and> p = JStr (or_default (ADMIN_PASSWORD e) ''Abhay123''))
   \<and> fst (handle e d (now, AdminLogin u p)) = d"
proof -
  have "run e d rqs = run e d (filter (\<lambda>rq. \<not> is_login (snd rq)) rqs)"
    by (induction rqs arbitrary: d) (auto simp: handle_login)
  then show ?thesis by (simp add: admin_login_def)
qed

theorem login_does_not_gate_admin_operations_witness:
  "run sample_env init_db
     [(t0, AdminLogin (JStr ''Abhay'') (JStr ''Abhay123'')), (t0, UpdateStatus (JStr ''paused''))]
   = run sample_env init_db [(t0, UpdateStatus (JStr ''paused''))]
   \<and> admin_login sample_env (JStr ''Abhay'') (JStr ''Abhay123'') = LoginOk ''admin-session-token''"
proof -
  note th = login_does_not_gate_admin_operations
    [of sample_env init_db
        "[(t0, AdminLogin (JStr ''Abhay'') (JStr ''Abhay123'')), (t0, UpdateStatus (JStr ''paused''))]"
        "JStr ''Abhay''" "JStr ''Abhay123''" t0]
  have a: "run sample_env init_db
     [(t0, AdminLogin (JStr ''Abhay'') (JStr ''Abhay123'')), (t0, UpdateStatus (JStr ''paused''))]
   = run sample_env init_db [(t0, UpdateStatus (JStr ''paused''))]"
    using th by (simp add: is_login_def)
  have b: "admin_login sample_env (JStr ''Abhay'') (JStr ''Abhay123'') = LoginOk ''admin-session-token''"
    using th by (simp add: sample_env_def or_default_def)
  show ?thesis by (intro conjI a b)
qed

text \<open>
  The claim as the specification states it fails: after a login that is refused, a
  request changes the gate setting, and requests trash and purge a stored row.
\<close>

theorem admin_operations_without_login:
  "admin_login sample_env (JStr ''guest'') (JStr ''guess'') = LoginFailed ''Invalid credentials''
   \<and> payment_status init_db = ''active''
   \<and> payment_status (run sample_env init_db
        [(t0, AdminLogin (JStr ''guest'') (JStr ''guess'')), (t0, UpdateStatus (JStr ''paused''))])
      = ''paused''
   \<and> payments (day_db (Suc 0)) = [row0 (Suc 0)]
   \<and> payments (run sample_env (day_db (Suc 0))
        [(t0, AdminLogin (JStr ''guest'') (JStr ''guess'')), (t0, DeletePayment 1),
         (t0, PermanentDelete 1)]) = []"
  by (simp add: admin_login_def sample_env_def or_default_def init_db_def update_status_def
      day_db_def row0_def delete_payment_def permanent_delete_def)

end
